theory Spec2Isabelle
  imports Main
begin

section \<open>JavaScript values, exceptions and effectful computations\<close>

text \<open>
  The program is \<^verbatim>\<open>lib/transaction/tracer/debug.js\<close>. Its values are dynamically
  typed; the only thing the code asks of an arbitrary value is whether it is falsy
  (\<^verbatim>\<open>if (!value) throw ...\<close>). Objects and functions are carried by identity only:
  both are always truthy.
\<close>

datatype jsval =
    Undefined
  | Null
  | JBool bool
  | JNum int
  | JStr string
  | JObj nat
  | JFun nat

fun truthy :: "jsval \<Rightarrow> bool" where
  "truthy Undefined = False"
| "truthy Null = False"
| "truthy (JBool b) = b"
| "truthy (JNum n) = (n \<noteq> 0)"
| "truthy (JStr s) = (s \<noteq> [])"
| "truthy (JObj a) = True"
| "truthy (JFun f) = True"

text \<open>
  \<^verbatim>\<open>throw new Error(msg)\<close> is \<open>Error msg\<close>; anything thrown by code outside this
  file (a handler, the agent) is \<open>Thrown v\<close>.
\<close>

datatype exn = Error string | Thrown jsval

text \<open>
  A computation takes the world and returns either the exception it raised or its
  result, together with the world it leaves behind. Mutations made before a
  \<^verbatim>\<open>throw\<close> stay made, so the world is returned in both cases.
\<close>

type_synonym ('r, 'w) js = "'w \<Rightarrow> (exn + 'r) \<times> 'w"

definition js_return :: "'r \<Rightarrow> ('r, 'w) js" where
  "js_return x = (\<lambda>w. (Inr x, w))"

definition js_bind :: "('r, 'w) js \<Rightarrow> ('r \<Rightarrow> ('s, 'w) js) \<Rightarrow> ('s, 'w) js" where
  "js_bind m f = (\<lambda>w. case m w of (Inl e, w') \<Rightarrow> (Inl e, w') | (Inr x, w') \<Rightarrow> f x w')"

text \<open>
  A function value: its identity (what is stored when the function is kept as a
  value) and what \<^verbatim>\<open>f.apply(this, arguments)\<close> does. Handlers are documented as
  \<^verbatim>\<open>@param {Function} handler\<close>. A handler is taken to return or throw; one that
  never returns makes the proxy never return, and no statement below is about that.
\<close>

datatype 'w func =
  Callable (fn_id: nat) (fn_apply: "jsval \<Rightarrow> jsval list \<Rightarrow> 'w \<Rightarrow> (exn + jsval) \<times> 'w")

text \<open>\<^verbatim>\<open>util.format("%d", n)\<close> for a counter: its decimal digits.\<close>

fun format_d :: "nat \<Rightarrow> string" where
  "format_d n =
     (if n < 10 then [''0123456789'' ! n]
      else format_d (n div 10) @ [''0123456789'' ! (n mod 10)])"

declare format_d.simps [simp del]

section \<open>The entity hierarchy\<close>

text \<open>
  An entity is an object. The fields written once by its constructor (\<^verbatim>\<open>id\<close>, the
  owning parent, \<^verbatim>\<open>value\<close>) are the fields of the record; the counter that
  \<^verbatim>\<open>addSegment\<close> and \<^verbatim>\<open>addCall\<close> update in place lives in the store of the world,
  at the address the record carries, so that every holder of a reference to the
  object sees the update. Ids are JavaScript numbers used as counters from 0 in
  steps of 1; they are natural numbers here (exact below \<open>2 ^ 53\<close>).
\<close>

type_synonym ref = nat

record Transaction =
  t_ref :: ref
  t_id :: nat
  t_value :: jsval

record Segment =
  s_ref :: ref
  s_id :: nat
  s_transaction :: Transaction
  s_value :: jsval

record Call =
  c_id :: nat
  c_segment :: Segment
  c_value :: jsval

text \<open>
  Modelled from the spec: \<^verbatim>\<open>State\<close> is required from \<^verbatim>\<open>./state\<close>, which is not part
  of the sources. The spec gives it as an immutable triple of transaction, segment
  and call with a boolean marker.
\<close>

record State =
  transaction :: Transaction
  segment :: Segment
  call :: Call
  full :: bool

definition new_State :: "Transaction \<Rightarrow> Segment \<Rightarrow> Call \<Rightarrow> bool \<Rightarrow> State" where
  "new_State t s c f = \<lparr>transaction = t, segment = s, call = c, full = f\<rparr>"

text \<open>
  Modelled from the spec: the Context Contract is the object passed to the Tracer,
  whose code is not part of the sources. It has a readable slot \<^verbatim>\<open>state\<close>
  (\<open>None\<close> when no State is active); \<^verbatim>\<open>enter\<close> makes its argument the active
  State and saves what was active; \<^verbatim>\<open>exit\<close> restores what was active before the
  matching \<^verbatim>\<open>enter\<close>.
\<close>

record Context =
  state :: "State option"
  stack :: "State option list"

definition new_Context :: Context where
  "new_Context = \<lparr>state = None, stack = []\<rparr>"

definition Context_enter :: "State \<Rightarrow> Context \<Rightarrow> Context" where
  "Context_enter st c = \<lparr>state = Some st, stack = state c # stack c\<rparr>"

definition Context_exit :: "State \<Rightarrow> Context \<Rightarrow> Context" where
  "Context_exit st c =
     (case stack c of
        [] \<Rightarrow> \<lparr>state = None, stack = []\<rparr>
      | prior # rest \<Rightarrow> \<lparr>state = prior, stack = rest\<rparr>)"

record Describer =
  trace :: "string list"
  creations :: "string list"
  wrappings :: "string list"
  verbose :: "string list"

record ('a, 'c) Tracer =
  numTransactions :: nat
  tracer_agent :: 'a
  tracer_context :: 'c
  describer :: Describer

text \<open>
  The world: the counters of the Transaction and Segment objects by address, the
  next free address of each kind, the Tracer, and the Context object the Tracer
  shares with its callers. The record is extensible: whatever else a handler reads
  or writes is in the extension.
\<close>

record ('a, 'c) world =
  numSegments :: "ref \<Rightarrow> nat"
  numCalls :: "ref \<Rightarrow> nat"
  nextTransaction :: ref
  nextSegment :: ref
  tracer :: "('a, 'c) Tracer"
  context_obj :: Context

subsection \<open>Call\<close>

definition new_Call :: "nat \<Rightarrow> Segment option \<Rightarrow> jsval \<Rightarrow> exn + Call" where
  "new_Call i sg v =
     (if i = 0 then Inl (Error ''Calls must have an ID.'')
      else case sg of
        None \<Rightarrow> Inl (Error ''Calls must be associated with a segment.'')
      | Some s \<Rightarrow>
          if \<not> truthy v then Inl (Error ''Calls must be associated with a segment value.'')
          else Inr \<lparr>c_id = i, c_segment = s, c_value = v\<rparr>)"

definition Call_format :: "Call \<Rightarrow> string" where
  "Call_format this =
     ''T'' @ format_d (t_id (s_transaction (c_segment this)))
     @ ''S'' @ format_d (s_id (c_segment this))
     @ ''C'' @ format_d (c_id this)"

subsection \<open>Segment\<close>

definition new_Segment ::
  "nat \<Rightarrow> Transaction option \<Rightarrow> jsval \<Rightarrow> (Segment, ('a, 'c, 'z) world_scheme) js" where
  "new_Segment i tr v =
     (\<lambda>w. if i = 0 then (Inl (Error ''Segments must have an ID.''), w)
      else case tr of
        None \<Rightarrow> (Inl (Error ''Segments must be associated with a transaction.''), w)
      | Some t \<Rightarrow>
          if \<not> truthy v then (Inl (Error ''Segments must be associated with a value.''), w)
          else (Inr \<lparr>s_ref = nextSegment w, s_id = i, s_transaction = t, s_value = v\<rparr>,
                w\<lparr>numCalls := (numCalls w)(nextSegment w := 0),
                  nextSegment := Suc (nextSegment w)\<rparr>))"

definition Segment_addCall ::
  "Segment \<Rightarrow> jsval \<Rightarrow> (Call, ('a, 'c, 'z) world_scheme) js" where
  "Segment_addCall this v =
     (\<lambda>w. let n = numCalls w (s_ref this) + 1;
              w1 = w\<lparr>numCalls := (numCalls w)(s_ref this := n)\<rparr>
          in (new_Call n (Some this) v, w1))"

subsection \<open>Transaction\<close>

definition new_Transaction ::
  "nat \<Rightarrow> jsval \<Rightarrow> (Transaction, ('a, 'c, 'z) world_scheme) js" where
  "new_Transaction i v =
     (\<lambda>w. if i = 0 then (Inl (Error ''Transactions must have an ID.''), w)
      else if \<not> truthy v then (Inl (Error ''Transactions must be associated with a value.''), w)
      else (Inr \<lparr>t_ref = nextTransaction w, t_id = i, t_value = v\<rparr>,
            w\<lparr>numSegments := (numSegments w)(nextTransaction w := 0),
              nextTransaction := Suc (nextTransaction w)\<rparr>))"

definition Transaction_addSegment ::
  "Transaction \<Rightarrow> jsval \<Rightarrow> (Segment, ('a, 'c, 'z) world_scheme) js" where
  "Transaction_addSegment this v =
     (\<lambda>w. let n = numSegments w (t_ref this) + 1;
              w1 = w\<lparr>numSegments := (numSegments w)(t_ref this := n)\<rparr>
          in new_Segment n (Some this) v w1)"

section \<open>The recorder\<close>

definition new_Describer :: Describer where
  "new_Describer = \<lparr>trace = [], creations = [], wrappings = [], verbose = []\<rparr>"

definition traceCall :: "string \<Rightarrow> Call \<Rightarrow> Describer \<Rightarrow> Describer" where
  "traceCall direction c d =
     (let i = direction @ Call_format c
      in d\<lparr>trace := trace d @ [i], verbose := verbose d @ [i]\<rparr>)"

text \<open>\<^verbatim>\<open>type[0]\<close> of the empty string is \<^verbatim>\<open>undefined\<close>, which \<^verbatim>\<open>%s\<close> prints by name.\<close>

definition traceCreation :: "string \<Rightarrow> Describer \<Rightarrow> Describer" where
  "traceCreation type d =
     (let creation = ''+'' @ (case type of [] \<Rightarrow> ''undefined'' | ch # _ \<Rightarrow> [ch])
      in d\<lparr>creations := creations d @ [creation], verbose := verbose d @ [creation]\<rparr>)"

definition traceWrapping :: "string \<Rightarrow> string \<Rightarrow> Describer \<Rightarrow> Describer" where
  "traceWrapping direction type d =
     (let wrapping = direction @ type
      in d\<lparr>wrappings := wrappings d @ [wrapping], verbose := verbose d @ [wrapping]\<rparr>)"

text \<open>The Tracer's \<^verbatim>\<open>this.describer.m(...)\<close>: the method \<open>m\<close> on the describer of the world.\<close>

definition on_describer ::
  "(Describer \<Rightarrow> Describer) \<Rightarrow> ('a, 'c, 'z) world_scheme \<Rightarrow> ('a, 'c, 'z) world_scheme" where
  "on_describer m w = w\<lparr>tracer := (tracer w)\<lparr>describer := m (describer (tracer w))\<rparr>\<rparr>"

definition wrapExecution ::
  "string \<Rightarrow> (jsval \<Rightarrow> jsval list \<Rightarrow> ('r, ('a, 'c, 'z) world_scheme) js)
     \<Rightarrow> jsval \<Rightarrow> jsval list \<Rightarrow> ('r, ('a, 'c, 'z) world_scheme) js" where
  "wrapExecution type handler =
     (\<lambda>this arguments w.
        case handler this arguments (on_describer (traceWrapping ''->'' type) w) of
          (Inl e, w') \<Rightarrow> (Inl e, w')
        | (Inr returned, w') \<Rightarrow> (Inr returned, on_describer (traceWrapping ''<-'' type) w'))"

section \<open>The execution tracer\<close>

text \<open>
  Modelled from the spec: the agent is the request-value producer, whose code is
  not part of the sources. \<open>createTransaction\<close> is \<^verbatim>\<open>agent.createTransaction()\<close>
  and \<open>getTrace_root value\<close> is the expression \<^verbatim>\<open>value.getTrace().root\<close>; both run
  code outside this file, so both may change the world and may throw.
\<close>

record 'w Agent =
  createTransaction :: "(jsval, 'w) js"
  getTrace_root :: "jsval \<Rightarrow> (jsval, 'w) js"

text \<open>
  The constructor receives the agent and the context by reference; an absent
  (falsy) argument is \<open>None\<close>.
\<close>

definition new_Tracer :: "'a option \<Rightarrow> 'c option \<Rightarrow> exn + ('a, 'c) Tracer" where
  "new_Tracer ag cx =
     (case ag of
        None \<Rightarrow> Inl (Error ''Must be initialized with an agent.'')
      | Some a \<Rightarrow>
          (case cx of
             None \<Rightarrow> Inl (Error ''Must include shared context.'')
           | Some c \<Rightarrow>
               Inr \<lparr>numTransactions = 0, tracer_agent = a, tracer_context = c,
                    describer = new_Describer\<rparr>))"

definition Tracer_enter :: "State \<Rightarrow> (unit, ('a, 'c, 'z) world_scheme) js" where
  "Tracer_enter st =
     (\<lambda>w. let w1 = on_describer (traceCall ''->'' (call st)) w
          in (Inr (), w1\<lparr>context_obj := Context_enter st (context_obj w1)\<rparr>))"

definition Tracer_exit :: "State \<Rightarrow> (unit, ('a, 'c, 'z) world_scheme) js" where
  "Tracer_exit st =
     (\<lambda>w. let w1 = on_describer (traceCall ''<-'' (call st)) w
          in (Inr (), w1\<lparr>context_obj := Context_exit st (context_obj w1)\<rparr>))"

definition Tracer_addTransaction ::
  "jsval \<Rightarrow> (Transaction, ('a, 'c, 'z) world_scheme) js" where
  "Tracer_addTransaction v =
     (\<lambda>w. let w1 = w\<lparr>tracer := (tracer w)\<lparr>numTransactions := numTransactions (tracer w) + 1\<rparr>\<rparr>;
              w2 = on_describer (traceCreation ''Trace'') w1
          in new_Transaction (numTransactions (tracer w2)) v w2)"

definition Tracer_addSegment ::
  "Transaction \<Rightarrow> jsval \<Rightarrow> (Segment, ('a, 'c, 'z) world_scheme) js" where
  "Tracer_addSegment t v =
     (\<lambda>w. Transaction_addSegment t v (on_describer (traceCreation ''Segment'') w))"

definition Tracer_addCall ::
  "Segment \<Rightarrow> jsval \<Rightarrow> (Call, ('a, 'c, 'z) world_scheme) js" where
  "Tracer_addCall s v =
     (\<lambda>w. Segment_addCall s v (on_describer (traceCreation ''Call'') w))"

subsection \<open>transactionProxy\<close>

text \<open>The function literal of lines 213 to 226, given to the inner \<^verbatim>\<open>wrapExecution\<close>.\<close>

definition transactionProxy_inner ::
  "('a, 'c, 'z) world_scheme Agent \<Rightarrow> ('a, 'c, 'z) world_scheme func
     \<Rightarrow> jsval \<Rightarrow> jsval list \<Rightarrow> (jsval, ('a, 'c, 'z) world_scheme) js" where
  "transactionProxy_inner ag handler this arguments =
     js_bind (createTransaction ag) (\<lambda>v.
     js_bind (Tracer_addTransaction v) (\<lambda>t.
     js_bind (getTrace_root ag v) (\<lambda>root.
     js_bind (Tracer_addSegment t root) (\<lambda>s.
     js_bind (Tracer_addCall s (JFun (fn_id handler))) (\<lambda>c.
       let st = new_State t s c True in
       js_bind (Tracer_enter st) (\<lambda>_.
       js_bind (fn_apply handler this arguments) (\<lambda>returned.
       js_bind (Tracer_exit st) (\<lambda>_.
       js_return returned))))))))"

text \<open>
  The outer wrapper is called on the spot, with no receiver and no arguments; what
  it returns, and so what \<^verbatim>\<open>transactionProxy\<close> returns, is the inner wrapper.
\<close>

definition transactionProxy ::
  "('a, 'c, 'z) world_scheme Agent \<Rightarrow> ('a, 'c, 'z) world_scheme func
     \<Rightarrow> (jsval \<Rightarrow> jsval list \<Rightarrow> (jsval, ('a, 'c, 'z) world_scheme) js,
         ('a, 'c, 'z) world_scheme) js" where
  "transactionProxy ag handler =
     wrapExecution ''T outer''
       (\<lambda>this arguments.
          js_return (wrapExecution ''T inner'' (transactionProxy_inner ag handler)))
       Undefined []"

subsection \<open>segmentProxy\<close>

text \<open>The function literal of lines 242 to 257.\<close>

definition segmentProxy_inner ::
  "('a, 'c, 'z) world_scheme func
     \<Rightarrow> jsval \<Rightarrow> jsval list \<Rightarrow> (jsval, ('a, 'c, 'z) world_scheme) js" where
  "segmentProxy_inner handler this arguments =
     (\<lambda>w. case state (context_obj w) of
        None \<Rightarrow> fn_apply handler this arguments w
      | Some st0 \<Rightarrow>
          js_bind (Tracer_addSegment (transaction st0) (s_value (segment st0))) (\<lambda>s.
          js_bind (Tracer_addCall s (JFun (fn_id handler))) (\<lambda>c.
            let st = new_State (transaction st0) s c True in
            js_bind (Tracer_enter st) (\<lambda>_.
            js_bind (fn_apply handler this arguments) (\<lambda>returned.
            js_bind (Tracer_exit st) (\<lambda>_.
            js_return returned))))) w)"

definition segmentProxy ::
  "('a, 'c, 'z) world_scheme func
     \<Rightarrow> (jsval \<Rightarrow> jsval list \<Rightarrow> (jsval, ('a, 'c, 'z) world_scheme) js,
         ('a, 'c, 'z) world_scheme) js" where
  "segmentProxy handler =
     wrapExecution ''S outer''
       (\<lambda>this arguments.
          js_return (wrapExecution ''S inner'' (segmentProxy_inner handler)))
       Undefined []"

subsection \<open>callbackProxy\<close>

text \<open>
  The function literal of lines 281 to 288. It assigns the State it builds to the
  variable \<^verbatim>\<open>state\<close> of the enclosing call; the State built from that one on the
  next invocation has the same transaction, segment and call, so every invocation
  builds the same State from the captured one (lemma \<open>callback_state_idem\<close>).
\<close>

definition callbackProxy_inner ::
  "('a, 'c, 'z) world_scheme func \<Rightarrow> State \<Rightarrow> Call
     \<Rightarrow> jsval \<Rightarrow> jsval list \<Rightarrow> (jsval, ('a, 'c, 'z) world_scheme) js" where
  "callbackProxy_inner handler st0 c this arguments =
     (let st = new_State (transaction st0) (segment st0) c True in
      js_bind (Tracer_enter st) (\<lambda>_.
      js_bind (fn_apply handler this arguments) (\<lambda>returned.
      js_bind (Tracer_exit st) (\<lambda>_.
      js_return returned))))"

definition callbackProxy ::
  "('a, 'c, 'z) world_scheme func
     \<Rightarrow> (jsval \<Rightarrow> jsval list \<Rightarrow> (jsval, ('a, 'c, 'z) world_scheme) js,
         ('a, 'c, 'z) world_scheme) js" where
  "callbackProxy handler =
     (\<lambda>w. case state (context_obj w) of
        None \<Rightarrow> (Inr (fn_apply handler), w)
      | Some st0 \<Rightarrow>
          wrapExecution ''C outer''
            (\<lambda>this arguments.
               js_bind (Tracer_addCall (c_segment (call st0)) (JFun (fn_id handler))) (\<lambda>c.
               js_return (wrapExecution ''C inner'' (callbackProxy_inner handler st0 c))))
            Undefined [] w)"

section \<open>Notions used to state the properties\<close>

text \<open>
  The sequence that closes each of the three proxies (lines 221 to 225, 252 to 256
  and 283 to 287): enter the State, run the body, exit the State, return what the
  body returned. The body is \<^verbatim>\<open>handler.apply(this, arguments)\<close>.
\<close>

definition in_state ::
  "State \<Rightarrow> (jsval, ('a, 'c, 'z) world_scheme) js \<Rightarrow> (jsval, ('a, 'c, 'z) world_scheme) js" where
  "in_state st body =
     js_bind (Tracer_enter st) (\<lambda>_.
     js_bind body (\<lambda>returned.
     js_bind (Tracer_exit st) (\<lambda>_.
     js_return returned)))"

text \<open>
  A State names an ancestor chain when its call was created under its segment and
  its segment under its transaction.
\<close>

definition consistent :: "State \<Rightarrow> bool" where
  "consistent st \<longleftrightarrow>
     c_segment (call st) = segment st \<and> s_transaction (segment st) = transaction st"

text \<open>
  What a creation returns when its value is truthy, read off the world it starts
  in: the object gets the next free address, and the id is the parent's counter
  plus one (lemmas \<open>addTransaction_ok\<close>, \<open>addSegment_ok\<close>, \<open>addCall_ok\<close>).
\<close>

definition created_transaction :: "jsval \<Rightarrow> ('a, 'c, 'z) world_scheme \<Rightarrow> Transaction" where
  "created_transaction v w =
     \<lparr>t_ref = nextTransaction w, t_id = numTransactions (tracer w) + 1, t_value = v\<rparr>"

definition created_segment :: "Transaction \<Rightarrow> jsval \<Rightarrow> ('a, 'c, 'z) world_scheme \<Rightarrow> Segment" where
  "created_segment t v w =
     \<lparr>s_ref = nextSegment w, s_id = numSegments w (t_ref t) + 1, s_transaction = t, s_value = v\<rparr>"

definition created_call :: "Segment \<Rightarrow> jsval \<Rightarrow> ('a, 'c, 'z) world_scheme \<Rightarrow> Call" where
  "created_call s v w = \<lparr>c_id = numCalls w (s_ref s) + 1, c_segment = s, c_value = v\<rparr>"

text \<open>
  A world in which nothing has happened yet: no object allocated, a Tracer as its
  constructor leaves it, a Context with no active State.
\<close>

definition fresh_world :: "'a \<Rightarrow> 'c \<Rightarrow> ('a, 'c) world" where
  "fresh_world a c =
     \<lparr>numSegments = (\<lambda>_. 0), numCalls = (\<lambda>_. 0), nextTransaction = 0, nextSegment = 0,
      tracer = \<lparr>numTransactions = 0, tracer_agent = a, tracer_context = c,
                describer = new_Describer\<rparr>,
      context_obj = new_Context\<rparr>"

text \<open>
  An agent that hands out the same request value and the same root value every
  time and touches nothing else.
\<close>

definition const_agent :: "jsval \<Rightarrow> jsval \<Rightarrow> 'w Agent" where
  "const_agent v root =
     \<lparr>createTransaction = js_return v, getTrace_root = (\<lambda>_. js_return root)\<rparr>"











text \<open>
  A handler that returns 42 and leaves a mark in the wrapping log when it runs, so
  that the log shows whether and when it was invoked.
\<close>

definition marking_handler :: "('a, 'c, 'z) world_scheme func" where
  "marking_handler =
     Callable 0 (\<lambda>this arguments w. (Inr (JNum 42), on_describer (traceWrapping ''handler'' []) w))"

text \<open>
  The world in which the handler of a first transaction runs: on a fresh Tracer,
  transaction 1 with its root segment and first call have been created and their
  State entered.
\<close>

definition example_transaction :: Transaction where
  "example_transaction = \<lparr>t_ref = 0, t_id = 1, t_value = JObj 0\<rparr>"

definition example_segment :: Segment where
  "example_segment =
     \<lparr>s_ref = 0, s_id = 1, s_transaction = example_transaction, s_value = JObj 1\<rparr>"

definition example_call :: Call where
  "example_call = \<lparr>c_id = 1, c_segment = example_segment, c_value = JFun 0\<rparr>"

definition example_state :: State where
  "example_state = new_State example_transaction example_segment example_call True"

definition active_world :: "(unit, unit) world" where
  "active_world =
     snd (Tracer_enter example_state
       (snd (Tracer_addCall example_segment (JFun 0)
         (snd (Tracer_addSegment example_transaction (JObj 1)
           (snd (Tracer_addTransaction (JObj 0) (fresh_world () ()))))))))"

text \<open>A State of another transaction, for a context that has moved on.\<close>

definition other_state :: State where
  "other_state =
     new_State \<lparr>t_ref = 1, t_id = 2, t_value = JObj 2\<rparr>
       \<lparr>s_ref = 1, s_id = 1, s_transaction = \<lparr>t_ref = 1, t_id = 2, t_value = JObj 2\<rparr>,
        s_value = JObj 3\<rparr>
       \<lparr>c_id = 1,
        c_segment = \<lparr>s_ref = 1, s_id = 1,
                     s_transaction = \<lparr>t_ref = 1, t_id = 2, t_value = JObj 2\<rparr>,
                     s_value = JObj 3\<rparr>,
        c_value = JFun 1\<rparr>
       True"

text \<open>A handler that raises and touches nothing.\<close>

definition throwing_handler :: "('a, 'c, 'z) world_scheme func" where
  "throwing_handler = Callable 1 (\<lambda>this arguments w. (Inl (Thrown (JStr ''boom'')), w))"

text \<open>
  The Context holds only consistent States: the active one and the saved ones.
\<close>

definition consistent_slot :: "State option \<Rightarrow> bool" where
  "consistent_slot x = (case x of None \<Rightarrow> True | Some st \<Rightarrow> consistent st)"

definition context_consistent :: "('a, 'c, 'z) world_scheme \<Rightarrow> bool" where
  "context_consistent w \<longleftrightarrow>
     consistent_slot (state (context_obj w)) \<and> list_all consistent_slot (stack (context_obj w))"

text \<open>
  A world whose active State does not name one chain: on a fresh Tracer,
  transaction 1, its segments 1 and 2 and a call under segment 1 have been created
  with the Tracer's methods, and the State of transaction 1, segment 2 and that
  call has been entered with the Tracer's \<^verbatim>\<open>enter\<close>.
\<close>

definition second_segment :: Segment where
  "second_segment =
     \<lparr>s_ref = 1, s_id = 2, s_transaction = example_transaction, s_value = JObj 2\<rparr>"

definition crossed_state :: State where
  "crossed_state = new_State example_transaction second_segment example_call True"

definition crossed_world :: "(unit, unit) world" where
  "crossed_world =
     snd (Tracer_enter crossed_state
       (snd (Tracer_addCall example_segment (JFun 0)
         (snd (Tracer_addSegment example_transaction (JObj 2)
           (snd (Tracer_addSegment example_transaction (JObj 1)
             (snd (Tracer_addTransaction (JObj 0) (fresh_world () ()))))))))))"

section \<open>Basic facts\<close>

lemmas monad_defs = js_bind_def js_return_def

lemmas recorder_defs = on_describer_def traceWrapping_def traceCreation_def traceCall_def

lemmas entity_defs = new_Transaction_def new_Segment_def new_Call_def
  Transaction_addSegment_def Segment_addCall_def new_State_def

lemmas tracer_defs = Tracer_addTransaction_def Tracer_addSegment_def Tracer_addCall_def
  Tracer_enter_def Tracer_exit_def

lemma format_d_1: "format_d (Suc 0) = ''1''"
  by (simp add: format_d.simps)

lemma wrapExecution_apply:
  "wrapExecution type f this args w =
     (case f this args (on_describer (traceWrapping ''->'' type) w) of
        (Inl e, w') \<Rightarrow> (Inl e, w')
      | (Inr r, w') \<Rightarrow> (Inr r, on_describer (traceWrapping ''<-'' type) w'))"
  by (simp add: wrapExecution_def)

lemma Tracer_enter_unit: "Tracer_enter st w = (Inr (), snd (Tracer_enter st w))"
  by (simp add: Tracer_enter_def Let_def)

lemma Tracer_exit_unit: "Tracer_exit st w = (Inr (), snd (Tracer_exit st w))"
  by (simp add: Tracer_exit_def Let_def)

lemma in_state_run:
  "in_state st body w =
     (case body (snd (Tracer_enter st w)) of
        (Inl e, w') \<Rightarrow> (Inl e, w')
      | (Inr r, w') \<Rightarrow> (Inr r, snd (Tracer_exit st w')))"
proof -
  obtain x w' where b: "body (snd (Tracer_enter st w)) = (x, w')"
    by (cases "body (snd (Tracer_enter st w))")
  have "in_state st body w =
      (case body (snd (Tracer_enter st w)) of
        (Inl e, w') \<Rightarrow> (Inl e, w')
      | (Inr r, w') \<Rightarrow> (case Tracer_exit st w' of (Inl e, w'') \<Rightarrow> (Inl e, w'') | (Inr u, w'') \<Rightarrow> (Inr r, w'')))"
    unfolding in_state_def js_bind_def js_return_def
    by (subst Tracer_enter_unit) simp
  also have "\<dots> = (case body (snd (Tracer_enter st w)) of
        (Inl e, w') \<Rightarrow> (Inl e, w')
      | (Inr r, w') \<Rightarrow> (Inr r, snd (Tracer_exit st w')))"
    unfolding b by (cases x) (simp_all add: Tracer_exit_def Let_def)
  finally show ?thesis .
qed

lemma addSegment_ok:
  "truthy v \<Longrightarrow> Tracer_addSegment t v w =
     (Inr (created_segment t v w), snd (Tracer_addSegment t v w))"
  by (simp add: Tracer_addSegment_def Transaction_addSegment_def new_Segment_def on_describer_def
        created_segment_def Let_def)

lemma addSegment_falsy:
  "\<not> truthy v \<Longrightarrow> Tracer_addSegment t v w =
     (Inl (Error ''Segments must be associated with a value.''), snd (Tracer_addSegment t v w))"
  by (simp add: Tracer_addSegment_def Transaction_addSegment_def new_Segment_def on_describer_def Let_def)

lemma addCall_ok:
  "truthy v \<Longrightarrow> Tracer_addCall s v w =
     (Inr (created_call s v w), snd (Tracer_addCall s v w))"
  by (simp add: Tracer_addCall_def Segment_addCall_def new_Call_def on_describer_def
        created_call_def Let_def)

lemma addCall_falsy:
  "\<not> truthy v \<Longrightarrow> Tracer_addCall s v w =
     (Inl (Error ''Calls must be associated with a segment value.''), snd (Tracer_addCall s v w))"
  by (simp add: Tracer_addCall_def Segment_addCall_def new_Call_def on_describer_def Let_def)

lemma addSegment_fields:
  "numSegments (snd (Tracer_addSegment t v w)) = (numSegments w)(t_ref t := numSegments w (t_ref t) + 1)"
  "numCalls (snd (Tracer_addSegment t v w)) = (if truthy v then (numCalls w)(nextSegment w := 0) else numCalls w)"
  "nextSegment (snd (Tracer_addSegment t v w)) = (if truthy v then Suc (nextSegment w) else nextSegment w)"
  "nextTransaction (snd (Tracer_addSegment t v w)) = nextTransaction w"
  "numTransactions (tracer (snd (Tracer_addSegment t v w))) = numTransactions (tracer w)"
  "tracer_agent (tracer (snd (Tracer_addSegment t v w))) = tracer_agent (tracer w)"
  "tracer_context (tracer (snd (Tracer_addSegment t v w))) = tracer_context (tracer w)"
  "trace (describer (tracer (snd (Tracer_addSegment t v w)))) = trace (describer (tracer w))"
  "creations (describer (tracer (snd (Tracer_addSegment t v w)))) = creations (describer (tracer w)) @ [''+S'']"
  "wrappings (describer (tracer (snd (Tracer_addSegment t v w)))) = wrappings (describer (tracer w))"
  "verbose (describer (tracer (snd (Tracer_addSegment t v w)))) = verbose (describer (tracer w)) @ [''+S'']"
  "context_obj (snd (Tracer_addSegment t v w)) = context_obj w"
  "world.more (snd (Tracer_addSegment t v w)) = world.more w"
  by (simp_all add: Tracer_addSegment_def Transaction_addSegment_def new_Segment_def
      recorder_defs Let_def)

lemma addCall_fields:
  "numSegments (snd (Tracer_addCall s v w)) = numSegments w"
  "numCalls (snd (Tracer_addCall s v w)) = (numCalls w)(s_ref s := numCalls w (s_ref s) + 1)"
  "nextSegment (snd (Tracer_addCall s v w)) = nextSegment w"
  "nextTransaction (snd (Tracer_addCall s v w)) = nextTransaction w"
  "numTransactions (tracer (snd (Tracer_addCall s v w))) = numTransactions (tracer w)"
  "tracer_agent (tracer (snd (Tracer_addCall s v w))) = tracer_agent (tracer w)"
  "tracer_context (tracer (snd (Tracer_addCall s v w))) = tracer_context (tracer w)"
  "trace (describer (tracer (snd (Tracer_addCall s v w)))) = trace (describer (tracer w))"
  "creations (describer (tracer (snd (Tracer_addCall s v w)))) = creations (describer (tracer w)) @ [''+C'']"
  "wrappings (describer (tracer (snd (Tracer_addCall s v w)))) = wrappings (describer (tracer w))"
  "verbose (describer (tracer (snd (Tracer_addCall s v w)))) = verbose (describer (tracer w)) @ [''+C'']"
  "context_obj (snd (Tracer_addCall s v w)) = context_obj w"
  "world.more (snd (Tracer_addCall s v w)) = world.more w"
  by (simp_all add: Tracer_addCall_def Segment_addCall_def new_Call_def recorder_defs Let_def)

lemma addTransaction_fields:
  "numSegments (snd (Tracer_addTransaction v w)) = (if truthy v then (numSegments w)(nextTransaction w := 0) else numSegments w)"
  "numCalls (snd (Tracer_addTransaction v w)) = numCalls w"
  "nextSegment (snd (Tracer_addTransaction v w)) = nextSegment w"
  "nextTransaction (snd (Tracer_addTransaction v w)) = (if truthy v then Suc (nextTransaction w) else nextTransaction w)"
  "numTransactions (tracer (snd (Tracer_addTransaction v w))) = numTransactions (tracer w) + 1"
  "tracer_agent (tracer (snd (Tracer_addTransaction v w))) = tracer_agent (tracer w)"
  "tracer_context (tracer (snd (Tracer_addTransaction v w))) = tracer_context (tracer w)"
  "trace (describer (tracer (snd (Tracer_addTransaction v w)))) = trace (describer (tracer w))"
  "creations (describer (tracer (snd (Tracer_addTransaction v w)))) = creations (describer (tracer w)) @ [''+T'']"
  "wrappings (describer (tracer (snd (Tracer_addTransaction v w)))) = wrappings (describer (tracer w))"
  "verbose (describer (tracer (snd (Tracer_addTransaction v w)))) = verbose (describer (tracer w)) @ [''+T'']"
  "context_obj (snd (Tracer_addTransaction v w)) = context_obj w"
  "world.more (snd (Tracer_addTransaction v w)) = world.more w"
  by (simp_all add: Tracer_addTransaction_def new_Transaction_def recorder_defs Let_def)

lemma addTransaction_ok:
  "truthy v \<Longrightarrow> Tracer_addTransaction v w =
     (Inr (created_transaction v w), snd (Tracer_addTransaction v w))"
  by (simp add: Tracer_addTransaction_def new_Transaction_def on_describer_def
        created_transaction_def Let_def)

lemma addTransaction_falsy:
  "\<not> truthy v \<Longrightarrow> Tracer_addTransaction v w =
     (Inl (Error ''Transactions must be associated with a value.''), snd (Tracer_addTransaction v w))"
  by (simp add: Tracer_addTransaction_def new_Transaction_def on_describer_def Let_def)

lemma enter_fields:
  "numSegments (snd (Tracer_enter st w)) = numSegments w"
  "numCalls (snd (Tracer_enter st w)) = numCalls w"
  "nextSegment (snd (Tracer_enter st w)) = nextSegment w"
  "nextTransaction (snd (Tracer_enter st w)) = nextTransaction w"
  "numTransactions (tracer (snd (Tracer_enter st w))) = numTransactions (tracer w)"
  "tracer_agent (tracer (snd (Tracer_enter st w))) = tracer_agent (tracer w)"
  "tracer_context (tracer (snd (Tracer_enter st w))) = tracer_context (tracer w)"
  "trace (describer (tracer (snd (Tracer_enter st w)))) = trace (describer (tracer w)) @ [''->'' @ Call_format (call st)]"
  "creations (describer (tracer (snd (Tracer_enter st w)))) = creations (describer (tracer w))"
  "wrappings (describer (tracer (snd (Tracer_enter st w)))) = wrappings (describer (tracer w))"
  "verbose (describer (tracer (snd (Tracer_enter st w)))) = verbose (describer (tracer w)) @ [''->'' @ Call_format (call st)]"
  "context_obj (snd (Tracer_enter st w)) = \<lparr>state = Some st, stack = state (context_obj w) # stack (context_obj w)\<rparr>"
  "world.more (snd (Tracer_enter st w)) = world.more w"
  by (simp_all add: Tracer_enter_def Context_enter_def recorder_defs Let_def)

lemma exit_fields:
  "numSegments (snd (Tracer_exit st w)) = numSegments w"
  "numCalls (snd (Tracer_exit st w)) = numCalls w"
  "nextSegment (snd (Tracer_exit st w)) = nextSegment w"
  "nextTransaction (snd (Tracer_exit st w)) = nextTransaction w"
  "numTransactions (tracer (snd (Tracer_exit st w))) = numTransactions (tracer w)"
  "tracer_agent (tracer (snd (Tracer_exit st w))) = tracer_agent (tracer w)"
  "tracer_context (tracer (snd (Tracer_exit st w))) = tracer_context (tracer w)"
  "trace (describer (tracer (snd (Tracer_exit st w)))) = trace (describer (tracer w)) @ [''<-'' @ Call_format (call st)]"
  "creations (describer (tracer (snd (Tracer_exit st w)))) = creations (describer (tracer w))"
  "wrappings (describer (tracer (snd (Tracer_exit st w)))) = wrappings (describer (tracer w))"
  "verbose (describer (tracer (snd (Tracer_exit st w)))) = verbose (describer (tracer w)) @ [''<-'' @ Call_format (call st)]"
  "context_obj (snd (Tracer_exit st w)) = Context_exit st (context_obj w)"
  "world.more (snd (Tracer_exit st w)) = world.more w"
  by (simp_all add: Tracer_exit_def recorder_defs Let_def)

lemma wrapping_fields:
  "numSegments (on_describer (traceWrapping dir type) w) = numSegments w"
  "numCalls (on_describer (traceWrapping dir type) w) = numCalls w"
  "nextSegment (on_describer (traceWrapping dir type) w) = nextSegment w"
  "nextTransaction (on_describer (traceWrapping dir type) w) = nextTransaction w"
  "numTransactions (tracer (on_describer (traceWrapping dir type) w)) = numTransactions (tracer w)"
  "tracer_agent (tracer (on_describer (traceWrapping dir type) w)) = tracer_agent (tracer w)"
  "tracer_context (tracer (on_describer (traceWrapping dir type) w)) = tracer_context (tracer w)"
  "trace (describer (tracer (on_describer (traceWrapping dir type) w))) = trace (describer (tracer w))"
  "creations (describer (tracer (on_describer (traceWrapping dir type) w))) = creations (describer (tracer w))"
  "wrappings (describer (tracer (on_describer (traceWrapping dir type) w))) = wrappings (describer (tracer w)) @ [dir @ type]"
  "verbose (describer (tracer (on_describer (traceWrapping dir type) w))) = verbose (describer (tracer w)) @ [dir @ type]"
  "context_obj (on_describer (traceWrapping dir type) w) = context_obj w"
  "world.more (on_describer (traceWrapping dir type) w) = world.more w"
  by (simp_all add: recorder_defs Let_def)

text \<open>What \<^verbatim>\<open>exit\<close> leaves in the Context, written out.\<close>

lemma exit_context:
  "context_obj (snd (Tracer_exit st w)) =
     (case stack (context_obj w) of
        [] \<Rightarrow> \<lparr>state = None, stack = []\<rparr>
      | prior # rest \<Rightarrow> \<lparr>state = prior, stack = rest\<rparr>)"
  by (simp add: exit_fields Context_exit_def)

lemma exit_restores:
  "context_obj u' = \<lparr>state = Some st, stack = state cx # stack cx\<rparr> \<Longrightarrow>
   context_obj (snd (Tracer_exit st' u')) = cx"
  by (simp add: exit_fields Context_exit_def)

lemma creation_results:
  "fst (Tracer_addTransaction v w) =
     (if truthy v then Inr (created_transaction v w)
      else Inl (Error ''Transactions must be associated with a value.''))"
  "fst (Tracer_addSegment t v w) =
     (if truthy v then Inr (created_segment t v w)
      else Inl (Error ''Segments must be associated with a value.''))"
  "fst (Tracer_addCall s v w) =
     (if truthy v then Inr (created_call s v w)
      else Inl (Error ''Calls must be associated with a segment value.''))"
  by (simp_all add: Tracer_addTransaction_def Tracer_addSegment_def Tracer_addCall_def
      Transaction_addSegment_def Segment_addCall_def new_Transaction_def new_Segment_def
      new_Call_def on_describer_def created_transaction_def created_segment_def created_call_def
      Let_def)

subsection \<open>The example worlds and handlers\<close>

lemma fresh_world_fields:
  "numSegments (fresh_world a c) = (\<lambda>_. 0)"
  "numCalls (fresh_world a c) = (\<lambda>_. 0)"
  "nextTransaction (fresh_world a c) = 0"
  "nextSegment (fresh_world a c) = 0"
  "numTransactions (tracer (fresh_world a c)) = 0"
  "trace (describer (tracer (fresh_world a c))) = []"
  "creations (describer (tracer (fresh_world a c))) = []"
  "wrappings (describer (tracer (fresh_world a c))) = []"
  "verbose (describer (tracer (fresh_world a c))) = []"
  "context_obj (fresh_world a c) = \<lparr>state = None, stack = []\<rparr>"
  by (simp_all add: fresh_world_def new_Describer_def new_Context_def)

lemma active_world_state: "state (context_obj active_world) = Some example_state"
  by (simp add: active_world_def enter_fields)

lemma example_state_fields:
  "transaction example_state = example_transaction"
  "segment example_state = example_segment"
  "call example_state = example_call"
  "s_value example_segment = JObj 1"
  "t_ref example_transaction = 0"
  "s_ref example_segment = 0"
  "c_segment example_call = example_segment"
  "s_transaction example_segment = example_transaction"
  by (simp_all add: example_state_def example_call_def example_segment_def
      example_transaction_def new_State_def)

lemma active_world_fields:
  "numSegments active_world = (\<lambda>_. 0)(0 := 1)"
  "numCalls active_world = (\<lambda>_. 0)(0 := 1)"
  "nextTransaction active_world = 1"
  "nextSegment active_world = 1"
  "numTransactions (tracer active_world) = 1"
  "trace (describer (tracer active_world)) = [''->T1S1C1'']"
  "creations (describer (tracer active_world)) = [''+T'', ''+S'', ''+C'']"
  "wrappings (describer (tracer active_world)) = []"
  "context_obj active_world = \<lparr>state = Some example_state, stack = [None]\<rparr>"
  by (simp_all add: active_world_def enter_fields addCall_fields addSegment_fields
      addTransaction_fields example_state_fields example_state_def example_call_def
      example_segment_def example_transaction_def new_State_def fresh_world_def
      new_Describer_def new_Context_def Call_format_def format_d_1 fun_eq_iff)

lemma format_d_2: "format_d (Suc (Suc 0)) = ''2''" "format_d 2 = ''2''"
  by (simp_all add: format_d.simps)

lemma marking_handler_apply:
  "fn_apply marking_handler this args w = (Inr (JNum 42), on_describer (traceWrapping ''handler'' []) w)"
  "fn_id marking_handler = 0"
  by (simp_all add: marking_handler_def)

lemma throwing_handler_apply:
  "fn_apply throwing_handler this args w = (Inl (Thrown (JStr ''boom'')), w)"
  "fn_id throwing_handler = 1"
  by (simp_all add: throwing_handler_def)

lemma example_state_consistent: "consistent example_state"
  by (simp add: consistent_def example_state_fields)

lemma const_agent_simps:
  "createTransaction (const_agent v root) w = (Inr v, w)"
  "getTrace_root (const_agent v root) x w = (Inr root, w)"
  by (simp_all add: const_agent_def js_return_def)

text \<open>
  The crossed world: its entities are those the Tracer's methods returned, and its
  active State is not consistent.
\<close>

lemma crossed_state_fields:
  "transaction crossed_state = example_transaction"
  "segment crossed_state = second_segment"
  "call crossed_state = example_call"
  "s_ref second_segment = 1"
  "s_id second_segment = 2"
  "s_value second_segment = JObj 2"
  "s_transaction second_segment = example_transaction"
  by (simp_all add: crossed_state_def second_segment_def new_State_def)

lemma crossed_world_entities:
  "fst (Tracer_addTransaction (JObj 0) (fresh_world () ())) = Inr example_transaction"
  "fst (Tracer_addSegment example_transaction (JObj 1)
          (snd (Tracer_addTransaction (JObj 0) (fresh_world () ())))) = Inr example_segment"
  "fst (Tracer_addSegment example_transaction (JObj 2)
          (snd (Tracer_addSegment example_transaction (JObj 1)
            (snd (Tracer_addTransaction (JObj 0) (fresh_world () ())))))) = Inr second_segment"
  "fst (Tracer_addCall example_segment (JFun 0)
          (snd (Tracer_addSegment example_transaction (JObj 2)
            (snd (Tracer_addSegment example_transaction (JObj 1)
              (snd (Tracer_addTransaction (JObj 0) (fresh_world () ())))))))) = Inr example_call"
  by (simp_all add: creation_results created_transaction_def
      created_segment_def created_call_def addSegment_fields addTransaction_fields
      fresh_world_fields example_transaction_def example_segment_def second_segment_def
      example_call_def)

lemma crossed_world_fields:
  "numSegments crossed_world = (\<lambda>_. 0)(0 := 2)"
  "numCalls crossed_world = (\<lambda>_. 0)(0 := 1)"
  "nextTransaction crossed_world = 1"
  "nextSegment crossed_world = 2"
  "numTransactions (tracer crossed_world) = 1"
  "trace (describer (tracer crossed_world)) = [''->T1S1C1'']"
  "creations (describer (tracer crossed_world)) = [''+T'', ''+S'', ''+S'', ''+C'']"
  "wrappings (describer (tracer crossed_world)) = []"
  "context_obj crossed_world = \<lparr>state = Some crossed_state, stack = [None]\<rparr>"
  by (simp_all add: crossed_world_def enter_fields addCall_fields addSegment_fields
      addTransaction_fields example_state_fields crossed_state_fields crossed_state_def
      example_call_def example_segment_def example_transaction_def new_State_def fresh_world_def
      new_Describer_def new_Context_def Call_format_def format_d_1 fun_eq_iff)

lemma crossed_state_inconsistent: "\<not> consistent crossed_state"
  by (simp add: consistent_def crossed_state_fields example_state_fields
      example_segment_def second_segment_def)

section \<open>Construction\<close>

text \<open>
  C7. Constructing a Call, a Segment or a Transaction raises exactly when one of
  its arguments is falsy or absent: the id (0), the owning parent (absent), the
  value (falsy); a Transaction has no parent. Constructing a Tracer raises exactly
  when the agent or the context is absent. When construction succeeds the object
  holds the arguments it was given, unchanged, with its own counter at 0.
\<close>

theorem construction_fails_iff_falsy:
  "((\<exists>e. new_Call i sg v = Inl e) \<longleftrightarrow> (i = 0 \<or> sg = None \<or> \<not> truthy v))
   \<and> ((\<exists>e. fst (new_Segment i tr v w) = Inl e) \<longleftrightarrow> (i = 0 \<or> tr = None \<or> \<not> truthy v))
   \<and> ((\<exists>e. fst (new_Transaction i v w) = Inl e) \<longleftrightarrow> (i = 0 \<or> \<not> truthy v))
   \<and> ((\<exists>e. new_Tracer ag cx = Inl e) \<longleftrightarrow> (ag = None \<or> cx = None))
   \<and> (i \<noteq> 0 \<and> truthy v \<longrightarrow>
        new_Call i (Some s) v = Inr \<lparr>c_id = i, c_segment = s, c_value = v\<rparr>
      \<and> new_Segment i (Some t) v w =
          (Inr \<lparr>s_ref = nextSegment w, s_id = i, s_transaction = t, s_value = v\<rparr>,
           w\<lparr>numCalls := (numCalls w)(nextSegment w := 0), nextSegment := Suc (nextSegment w)\<rparr>)
      \<and> new_Transaction i v w =
          (Inr \<lparr>t_ref = nextTransaction w, t_id = i, t_value = v\<rparr>,
           w\<lparr>numSegments := (numSegments w)(nextTransaction w := 0),
             nextTransaction := Suc (nextTransaction w)\<rparr>))
   \<and> new_Tracer (Some a) (Some c) =
        Inr \<lparr>numTransactions = 0, tracer_agent = a, tracer_context = c,
             describer = \<lparr>trace = [], creations = [], wrappings = [], verbose = []\<rparr>\<rparr>"
  by (auto simp: new_Call_def new_Segment_def new_Transaction_def new_Tracer_def new_Describer_def
      split: option.splits)

theorem construction_fails_iff_falsy_witness:
  "(\<exists>e. new_Call 0 (Some \<lparr>s_ref = 0, s_id = 1, s_transaction = \<lparr>t_ref = 0, t_id = 1, t_value = JObj 0\<rparr>,
                         s_value = JObj 1\<rparr>) (JFun 7) = Inl e)
   \<and> (\<exists>e. fst (new_Segment 0 (Some \<lparr>t_ref = 0, t_id = 1, t_value = JObj 0\<rparr>) (JFun 7)
                 (fresh_world () ())) = Inl e)
   \<and> (\<exists>e. fst (new_Transaction 0 (JFun 7) (fresh_world () ())) = Inl e)
   \<and> (\<exists>e. new_Tracer (None :: unit option) (Some ()) = Inl e)
   \<and> (1::nat) \<noteq> 0 \<and> truthy (JObj 1)
   \<and> new_Call 1 (Some \<lparr>s_ref = 0, s_id = 1, s_transaction = \<lparr>t_ref = 0, t_id = 1, t_value = JObj 0\<rparr>,
                         s_value = JObj 1\<rparr>) (JObj 1)
       = Inr \<lparr>c_id = 1,
              c_segment = \<lparr>s_ref = 0, s_id = 1,
                           s_transaction = \<lparr>t_ref = 0, t_id = 1, t_value = JObj 0\<rparr>,
                           s_value = JObj 1\<rparr>,
              c_value = JObj 1\<rparr>"
proof -
  let ?t = "\<lparr>t_ref = 0, t_id = 1, t_value = JObj 0\<rparr>"
  let ?s = "\<lparr>s_ref = 0, s_id = 1, s_transaction = ?t, s_value = JObj 1\<rparr>"
  note fails = construction_fails_iff_falsy
          [of 0 "Some ?s" "JFun 7" "Some ?t" "fresh_world () ()" "None :: unit option" "Some ()"
              ?s ?t "()" "()"]
  note stores = construction_fails_iff_falsy
          [of 1 "Some ?s" "JObj 1" "Some ?t" "fresh_world () ()" "Some ()" "Some ()"
              ?s ?t "()" "()"]
  have hyp: "(1::nat) \<noteq> 0 \<and> truthy (JObj 1)"
    by simp
  from fails stores hyp show ?thesis
    by blast
qed

section \<open>Transactions are counted before they are built\<close>

lemma addTransaction_attempts:
  "numTransactions (tracer (fold (\<lambda>x u. snd (Tracer_addTransaction x u)) vs w))
     = numTransactions (tracer w) + length vs"
  by (induction vs arbitrary: w) (simp_all add: addTransaction_fields)

lemma addTransaction_falsy_world:
  "\<not> truthy v \<Longrightarrow>
      snd (Tracer_addTransaction v w) =
         w\<lparr>tracer := (tracer w)
             \<lparr>numTransactions := numTransactions (tracer w) + 1,
              describer := (describer (tracer w))
                \<lparr>creations := creations (describer (tracer w)) @ [''+T''],
                 verbose := verbose (describer (tracer w)) @ [''+T'']\<rparr>\<rparr>\<rparr>"
  by (simp add: Tracer_addTransaction_def new_Transaction_def on_describer_def
        traceCreation_def Let_def)

text \<open>
  C9. \<^verbatim>\<open>addTransaction\<close> is not atomic on failure. With a falsy value it raises,
  and the world it leaves has the transaction counter advanced by one and \<open>+T\<close>
  appended to the creation log and to the verbose log; nothing else has changed.
  So after any attempts \<open>vs\<close>, failed or not, the next transaction that is created
  has the id \<open>numTransactions + length vs + 1\<close>: every failed attempt has used up
  an id.
\<close>

theorem addTransaction_not_atomic:
  "(\<not> truthy v \<longrightarrow>
      Tracer_addTransaction v w =
        (Inl (Error ''Transactions must be associated with a value.''),
         w\<lparr>tracer := (tracer w)
             \<lparr>numTransactions := numTransactions (tracer w) + 1,
              describer := (describer (tracer w))
                \<lparr>creations := creations (describer (tracer w)) @ [''+T''],
                 verbose := verbose (describer (tracer w)) @ [''+T'']\<rparr>\<rparr>\<rparr>))
   \<and> (truthy v' \<longrightarrow>
        (\<exists>t w'. Tracer_addTransaction v' (fold (\<lambda>x u. snd (Tracer_addTransaction x u)) vs w) = (Inr t, w')
           \<and> t_id t = numTransactions (tracer w) + length vs + 1))"
proof (intro conjI impI)
  assume falsy: "\<not> truthy v"
  show "Tracer_addTransaction v w =
        (Inl (Error ''Transactions must be associated with a value.''),
         w\<lparr>tracer := (tracer w)
             \<lparr>numTransactions := numTransactions (tracer w) + 1,
              describer := (describer (tracer w))
                \<lparr>creations := creations (describer (tracer w)) @ [''+T''],
                 verbose := verbose (describer (tracer w)) @ [''+T'']\<rparr>\<rparr>\<rparr>)"
    by (subst addTransaction_falsy [OF falsy]) (simp only: addTransaction_falsy_world [OF falsy])
next
  assume "truthy v'"
  note ok = addTransaction_ok [OF this, of "fold (\<lambda>x u. snd (Tracer_addTransaction x u)) vs w"]
  show "\<exists>t w'. Tracer_addTransaction v' (fold (\<lambda>x u. snd (Tracer_addTransaction x u)) vs w) = (Inr t, w')
           \<and> t_id t = numTransactions (tracer w) + length vs + 1"
    by (rule exI, rule exI, rule conjI, rule ok)
       (simp add: addTransaction_attempts created_transaction_def)
qed

theorem addTransaction_not_atomic_witness:
  "\<not> truthy Undefined \<and> truthy (JObj 5) \<and>
   fst (Tracer_addTransaction Undefined (fresh_world () ()))
     = Inl (Error ''Transactions must be associated with a value.'') \<and>
   (\<exists>t w'. Tracer_addTransaction (JObj 5)
      (fold (\<lambda>x u. snd (Tracer_addTransaction x u)) [Undefined, Null] (fresh_world () ())) = (Inr t, w')
    \<and> t_id t = 3)"
proof -
  note inst = addTransaction_not_atomic [of Undefined "fresh_world () ()" "JObj 5" "[Undefined, Null]"]
  have falsy: "\<not> truthy Undefined" and truthy: "truthy (JObj 5)"
    by simp_all
  from inst falsy have "fst (Tracer_addTransaction Undefined (fresh_world () ()))
     = Inl (Error ''Transactions must be associated with a value.'')"
    by (metis fst_conv)
  moreover from inst truthy
  have "\<exists>t w'. Tracer_addTransaction (JObj 5)
      (fold (\<lambda>x u. snd (Tracer_addTransaction x u)) [Undefined, Null] (fresh_world () ())) = (Inr t, w')
    \<and> t_id t = numTransactions (tracer (fresh_world () ())) + length [Undefined, Null] + 1"
    by blast
  moreover have "numTransactions (tracer (fresh_world () ())) + length [Undefined, Null] + 1 = 3"
    by (simp add: fresh_world_def)
  ultimately have "fst (Tracer_addTransaction Undefined (fresh_world () ()))
     = Inl (Error ''Transactions must be associated with a value.'') \<and>
   (\<exists>t w'. Tracer_addTransaction (JObj 5)
      (fold (\<lambda>x u. snd (Tracer_addTransaction x u)) [Undefined, Null] (fresh_world () ())) = (Inr t, w')
    \<and> t_id t = 3)"
    by (simp only:)
  with falsy truthy show ?thesis
    by (simp only: simp_thms)
qed

section \<open>transactionProxy\<close>

lemma wrapped_in_state:
  assumes "f this args (on_describer (traceWrapping ''->'' type) u) = in_state st body u5"
  shows "wrapExecution type f this args u =
     (case body (snd (Tracer_enter st u5)) of
        (Inl e, u') \<Rightarrow> (Inl e, u')
      | (Inr r, u') \<Rightarrow> (Inr r, on_describer (traceWrapping ''<-'' type) (snd (Tracer_exit st u'))))"
proof -
  obtain x u' where b: "body (snd (Tracer_enter st u5)) = (x, u')"
    by (cases "body (snd (Tracer_enter st u5))")
  show ?thesis
    by (cases x) (simp_all add: wrapExecution_apply assms in_state_run b)
qed

lemma transactionProxy_construct:
  "transactionProxy ag h w =
     (Inr (wrapExecution ''T inner'' (transactionProxy_inner ag h)),
      on_describer (traceWrapping ''<-'' ''T outer'') (on_describer (traceWrapping ''->'' ''T outer'') w))"
  by (simp add: transactionProxy_def wrapExecution_def js_return_def)

lemma transactionProxy_inner_in_state:
  "transactionProxy_inner ag h this args =
     js_bind (createTransaction ag) (\<lambda>v.
     js_bind (Tracer_addTransaction v) (\<lambda>t.
     js_bind (getTrace_root ag v) (\<lambda>root.
     js_bind (Tracer_addSegment t root) (\<lambda>s.
     js_bind (Tracer_addCall s (JFun (fn_id h))) (\<lambda>c.
       in_state (new_State t s c True) (fn_apply h this args))))))"
  by (simp add: transactionProxy_inner_def in_state_def Let_def)

lemma transactionProxy_inner_run:
  assumes created: "createTransaction ag u = (Inr v, u1)"
    and v: "truthy v"
    and rooted: "getTrace_root ag v (snd (Tracer_addTransaction v u1)) = (Inr root, u3)"
    and root: "truthy root"
  shows "transactionProxy_inner ag h this args u =
     in_state
       (new_State (created_transaction v u1) (created_segment (created_transaction v u1) root u3)
          (created_call (created_segment (created_transaction v u1) root u3) (JFun (fn_id h))
             (snd (Tracer_addSegment (created_transaction v u1) root u3)))
          True)
       (fn_apply h this args)
       (snd (Tracer_addCall (created_segment (created_transaction v u1) root u3) (JFun (fn_id h))
              (snd (Tracer_addSegment (created_transaction v u1) root u3))))"
proof -
  let ?t = "created_transaction v u1"
  let ?s = "created_segment ?t root u3"
  obtain u2 where u2: "u2 = snd (Tracer_addTransaction v u1)"
    and tra: "Tracer_addTransaction v u1 = (Inr ?t, u2)"
    using addTransaction_ok [OF v, of u1] by simp
  obtain u4 where u4: "u4 = snd (Tracer_addSegment ?t root u3)"
    and seg: "Tracer_addSegment ?t root u3 = (Inr ?s, u4)"
    using addSegment_ok [OF root, of ?t u3] by simp
  obtain u5 where u5: "u5 = snd (Tracer_addCall ?s (JFun (fn_id h)) u4)"
    and cal: "Tracer_addCall ?s (JFun (fn_id h)) u4 = (Inr (created_call ?s (JFun (fn_id h)) u4), u5)"
    using addCall_ok [of "JFun (fn_id h)" ?s u4] by simp
  have "transactionProxy_inner ag h this args u =
      in_state (new_State ?t ?s (created_call ?s (JFun (fn_id h)) u4) True) (fn_apply h this args) u5"
    unfolding transactionProxy_inner_in_state
    using created tra rooted [folded u2] seg cal
    by (simp add: js_bind_def)
  then show ?thesis
    by (simp only: u5 u4)
qed

lemma transactionProxy_invoke:
  assumes created: "createTransaction ag (on_describer (traceWrapping ''->'' ''T inner'') u) = (Inr v, u1)"
    and v: "truthy v"
    and rooted: "getTrace_root ag v (snd (Tracer_addTransaction v u1)) = (Inr root, u3)"
    and root: "truthy root"
  shows "(let t = created_transaction v u1;
              s = created_segment t root u3;
              u4 = snd (Tracer_addSegment t root u3);
              c = created_call s (JFun (fn_id h)) u4;
              u5 = snd (Tracer_addCall s (JFun (fn_id h)) u4);
              st = new_State t s c True
          in wrapExecution ''T inner'' (transactionProxy_inner ag h) this args u =
              (case fn_apply h this args (snd (Tracer_enter st u5)) of
                 (Inl e, u') \<Rightarrow> (Inl e, u')
               | (Inr r, u') \<Rightarrow>
                   (Inr r, on_describer (traceWrapping ''<-'' ''T inner'') (snd (Tracer_exit st u')))))"
  unfolding Let_def
  by (rule wrapped_in_state) (rule transactionProxy_inner_run [OF created v rooted root])

lemmas all_defs = monad_defs recorder_defs entity_defs tracer_defs
  transactionProxy_def transactionProxy_inner_def segmentProxy_def segmentProxy_inner_def
  callbackProxy_def callbackProxy_inner_def wrapExecution_def const_agent_def fresh_world_def
  new_Describer_def new_Context_def Context_enter_def Context_exit_def Call_format_def
  format_d_1 Let_def

text \<open>
  C3. On a fresh Tracer, with an agent that hands out a request value and a root
  value (both truthy), \<^verbatim>\<open>transactionProxy(function () { return 42; })()\<close> yields 42,
  leaves the call-trace log exactly \<open>->T1S1C1\<close>, \<open><-T1S1C1\<close> and the creation log
  exactly \<open>+T\<close>, \<open>+S\<close>, \<open>+C\<close>.
\<close>

theorem direct_call_scenario:
  "truthy v \<Longrightarrow> truthy root \<Longrightarrow>
   (case js_bind (transactionProxy (const_agent v root)
                    (Callable f (\<lambda>this arguments. js_return (JNum 42))))
           (\<lambda>proxied. proxied Undefined []) (fresh_world a c)
    of (r, w') \<Rightarrow>
       r = Inr (JNum 42)
     \<and> trace (describer (tracer w')) = [''->T1S1C1'', ''<-T1S1C1'']
     \<and> creations (describer (tracer w')) = [''+T'', ''+S'', ''+C''])"
proof -
  assume v: "truthy v" and root: "truthy root"
  let ?ag = "const_agent v root :: ('a, 'c) world Agent"
  let ?h = "Callable f (\<lambda>this arguments. js_return (JNum 42)) :: ('a, 'c) world func"
  let ?built = "snd (transactionProxy ?ag ?h (fresh_world a c))"
  let ?inner = "on_describer (traceWrapping ''->'' ''T inner'') ?built"
  have called: "js_bind (transactionProxy ?ag ?h) (\<lambda>proxied. proxied Undefined []) (fresh_world a c)
      = wrapExecution ''T inner'' (transactionProxy_inner ?ag ?h) Undefined [] ?built"
    by (simp add: js_bind_def transactionProxy_construct)
  have created: "createTransaction ?ag ?inner = (Inr v, ?inner)"
    and rooted: "getTrace_root ?ag v (snd (Tracer_addTransaction v ?inner))
      = (Inr root, snd (Tracer_addTransaction v ?inner))"
    by (simp_all add: const_agent_simps)
  note run = transactionProxy_invoke [OF created v rooted root, of ?h Undefined "[]", unfolded Let_def]
  show ?thesis
    unfolding called run
    by (simp add: js_return_def v root transactionProxy_construct fresh_world_fields
        wrapping_fields exit_fields enter_fields
        addCall_fields addSegment_fields addTransaction_fields created_call_def
        created_segment_def created_transaction_def new_State_def Call_format_def format_d_1)
qed

theorem direct_call_scenario_witness:
  "truthy (JObj 0) \<and> truthy (JObj 1) \<and>
   fst (js_bind (transactionProxy (const_agent (JObj 0) (JObj 1))
                    (Callable 7 (\<lambda>this arguments. js_return (JNum 42))))
           (\<lambda>proxied. proxied Undefined []) (fresh_world () ())) = Inr (JNum 42)
   \<and> trace (describer (tracer (snd (js_bind (transactionProxy (const_agent (JObj 0) (JObj 1))
                    (Callable 7 (\<lambda>this arguments. js_return (JNum 42))))
           (\<lambda>proxied. proxied Undefined []) (fresh_world () ())))))
       = [''->T1S1C1'', ''<-T1S1C1'']"
proof -
  have hyp: "truthy (JObj 0)" "truthy (JObj 1)"
    by simp_all
  from direct_call_scenario [OF hyp, of 7 "()" "()"] hyp show ?thesis
    by (simp add: case_prod_beta)
qed

text \<open>
  C5, as the claim states it, fails: when \<^verbatim>\<open>transactionProxy\<close> has returned, on a
  fresh Tracer, nothing has been created (empty creation log, counter and
  addresses at 0), nothing has been entered or exited (empty call-trace log), and
  the handler has not run (its mark is not in the wrapping log, which holds the two
  tokens of the outer wrapper only).
\<close>

theorem construction_is_first_call_counterexample:
  "creations (describer (tracer (snd (transactionProxy (const_agent (JObj 0) (JObj 1))
       marking_handler (fresh_world () ()))))) = []
   \<and> trace (describer (tracer (snd (transactionProxy (const_agent (JObj 0) (JObj 1))
       marking_handler (fresh_world () ()))))) = []
   \<and> numTransactions (tracer (snd (transactionProxy (const_agent (JObj 0) (JObj 1))
       marking_handler (fresh_world () ())))) = 0
   \<and> nextTransaction (snd (transactionProxy (const_agent (JObj 0) (JObj 1))
       marking_handler (fresh_world () ()))) = 0
   \<and> nextSegment (snd (transactionProxy (const_agent (JObj 0) (JObj 1))
       marking_handler (fresh_world () ()))) = 0
   \<and> wrappings (describer (tracer (snd (transactionProxy (const_agent (JObj 0) (JObj 1))
       marking_handler (fresh_world () ()))))) = [''->T outer'', ''<-T outer'']"
  by (simp add: all_defs marking_handler_def)

text \<open>
  C5, amended. Constructing \<^verbatim>\<open>transactionProxy(handler)\<close> only crosses the outer
  wrapping boundary: it returns the inner wrapper and appends \<open>->T outer\<close> and
  \<open><-T outer\<close> to the wrapping and verbose logs; no Transaction, Segment or Call is
  created, the context is neither entered nor exited, and the handler is not
  invoked. All of that happens on each invocation of the returned callable, when
  the agent hands out a truthy request value and a truthy root value: the
  Transaction is created with the next id of the Tracer (\<open>+T\<close>), the root Segment
  under it and the first Call of that Segment (\<open>+S\<close>, \<open>+C\<close>); the State of the
  three is entered (its \<open>->\<close> token appended to the call-trace log, the State made
  active and the State active before saved); the handler is applied to the
  receiver and arguments of the invocation; and when it returns the State is
  exited (its \<open><-\<close> token appended, the top of the saved States made active
  again, which is the State active before the enter when the handler has left
  the Context as it found it) and the result of the handler returned.
\<close>

theorem transactionProxy_construction_only_wraps:
  "transactionProxy ag h w =
     (Inr (wrapExecution ''T inner'' (transactionProxy_inner ag h)),
      on_describer (traceWrapping ''<-'' ''T outer'') (on_describer (traceWrapping ''->'' ''T outer'') w))
   \<and> (let w' = snd (transactionProxy ag h w)
       in numTransactions (tracer w') = numTransactions (tracer w)
        \<and> numSegments w' = numSegments w \<and> numCalls w' = numCalls w
        \<and> nextTransaction w' = nextTransaction w \<and> nextSegment w' = nextSegment w
        \<and> creations (describer (tracer w')) = creations (describer (tracer w))
        \<and> trace (describer (tracer w')) = trace (describer (tracer w))
        \<and> context_obj w' = context_obj w
        \<and> wrappings (describer (tracer w')) =
            wrappings (describer (tracer w)) @ [''->T outer'', ''<-T outer'']
        \<and> verbose (describer (tracer w')) =
            verbose (describer (tracer w)) @ [''->T outer'', ''<-T outer''])
   \<and> (createTransaction ag (on_describer (traceWrapping ''->'' ''T inner'') u) = (Inr v, u1)
        \<and> truthy v
        \<and> getTrace_root ag v (snd (Tracer_addTransaction v u1)) = (Inr root, u3)
        \<and> truthy root \<longrightarrow>
       (let t = created_transaction v u1;
            u2 = snd (Tracer_addTransaction v u1);
            s = created_segment t root u3;
            u4 = snd (Tracer_addSegment t root u3);
            c = created_call s (JFun (fn_id h)) u4;
            u5 = snd (Tracer_addCall s (JFun (fn_id h)) u4);
            st = new_State t s c True;
            u6 = snd (Tracer_enter st u5)
        in wrapExecution ''T inner'' (transactionProxy_inner ag h) this args u =
            (case fn_apply h this args u6 of
               (Inl e, u') \<Rightarrow> (Inl e, u')
             | (Inr r, u') \<Rightarrow>
                 (Inr r, on_describer (traceWrapping ''<-'' ''T inner'') (snd (Tracer_exit st u'))))
         \<and> t = \<lparr>t_ref = nextTransaction u1, t_id = numTransactions (tracer u1) + 1, t_value = v\<rparr>
         \<and> s = \<lparr>s_ref = nextSegment u3, s_id = numSegments u3 (t_ref t) + 1, s_transaction = t,
                 s_value = root\<rparr>
         \<and> c = \<lparr>c_id = 1, c_segment = s, c_value = JFun (fn_id h)\<rparr>
         \<and> st = \<lparr>transaction = t, segment = s, call = c, full = True\<rparr>
         \<and> numTransactions (tracer u2) = numTransactions (tracer u1) + 1
         \<and> nextTransaction u2 = Suc (nextTransaction u1)
         \<and> numSegments u2 = (numSegments u1)(nextTransaction u1 := 0)
         \<and> creations (describer (tracer u2)) = creations (describer (tracer u1)) @ [''+T'']
         \<and> trace (describer (tracer u2)) = trace (describer (tracer u1))
         \<and> context_obj u2 = context_obj u1
         \<and> numSegments u6 = (numSegments u3)(t_ref t := numSegments u3 (t_ref t) + 1)
         \<and> numCalls u6 = (numCalls u3)(nextSegment u3 := 1)
         \<and> nextSegment u6 = Suc (nextSegment u3)
         \<and> creations (describer (tracer u6)) = creations (describer (tracer u3)) @ [''+S'', ''+C'']
         \<and> trace (describer (tracer u6)) = trace (describer (tracer u3)) @ [''->'' @ Call_format c]
         \<and> Call_format c =
             ''T'' @ format_d (numTransactions (tracer u1) + 1)
             @ ''S'' @ format_d (numSegments u3 (nextTransaction u1) + 1) @ ''C1''
         \<and> context_obj u6 =
             \<lparr>state = Some st, stack = state (context_obj u3) # stack (context_obj u3)\<rparr>
         \<and> (\<forall>u'. trace (describer (tracer (on_describer (traceWrapping ''<-'' ''T inner'')
                                               (snd (Tracer_exit st u')))))
                     = trace (describer (tracer u')) @ [''<-'' @ Call_format c]
                \<and> creations (describer (tracer (on_describer (traceWrapping ''<-'' ''T inner'')
                                               (snd (Tracer_exit st u')))))
                     = creations (describer (tracer u'))
                \<and> wrappings (describer (tracer (on_describer (traceWrapping ''<-'' ''T inner'')
                                               (snd (Tracer_exit st u')))))
                     = wrappings (describer (tracer u')) @ [''<-T inner'']
                \<and> context_obj (on_describer (traceWrapping ''<-'' ''T inner'') (snd (Tracer_exit st u')))
                     = (case stack (context_obj u') of
                          [] \<Rightarrow> \<lparr>state = None, stack = []\<rparr>
                        | prior # rest \<Rightarrow> \<lparr>state = prior, stack = rest\<rparr>)
                \<and> (context_obj u' = context_obj u6 \<longrightarrow>
                     context_obj (on_describer (traceWrapping ''<-'' ''T inner'')
                                    (snd (Tracer_exit st u')))
                     = context_obj u3))))"
proof (intro conjI impI)
  show "transactionProxy ag h w =
     (Inr (wrapExecution ''T inner'' (transactionProxy_inner ag h)),
      on_describer (traceWrapping ''<-'' ''T outer'') (on_describer (traceWrapping ''->'' ''T outer'') w))"
    by (rule transactionProxy_construct)
next
  show "let w' = snd (transactionProxy ag h w)
       in numTransactions (tracer w') = numTransactions (tracer w)
        \<and> numSegments w' = numSegments w \<and> numCalls w' = numCalls w
        \<and> nextTransaction w' = nextTransaction w \<and> nextSegment w' = nextSegment w
        \<and> creations (describer (tracer w')) = creations (describer (tracer w))
        \<and> trace (describer (tracer w')) = trace (describer (tracer w))
        \<and> context_obj w' = context_obj w
        \<and> wrappings (describer (tracer w')) =
            wrappings (describer (tracer w)) @ [''->T outer'', ''<-T outer'']
        \<and> verbose (describer (tracer w')) =
            verbose (describer (tracer w)) @ [''->T outer'', ''<-T outer'']"
    by (simp add: transactionProxy_construct wrapping_fields)
next
  assume "createTransaction ag (on_describer (traceWrapping ''->'' ''T inner'') u) = (Inr v, u1)
        \<and> truthy v
        \<and> getTrace_root ag v (snd (Tracer_addTransaction v u1)) = (Inr root, u3)
        \<and> truthy root"
  then have created: "createTransaction ag (on_describer (traceWrapping ''->'' ''T inner'') u) = (Inr v, u1)"
    and v: "truthy v"
    and rooted: "getTrace_root ag v (snd (Tracer_addTransaction v u1)) = (Inr root, u3)"
    and root: "truthy root"
    by simp_all
  note run = transactionProxy_invoke [OF created v rooted root, of h this args, unfolded Let_def]
  show "let t = created_transaction v u1;
            u2 = snd (Tracer_addTransaction v u1);
            s = created_segment t root u3;
            u4 = snd (Tracer_addSegment t root u3);
            c = created_call s (JFun (fn_id h)) u4;
            u5 = snd (Tracer_addCall s (JFun (fn_id h)) u4);
            st = new_State t s c True;
            u6 = snd (Tracer_enter st u5)
        in wrapExecution ''T inner'' (transactionProxy_inner ag h) this args u =
            (case fn_apply h this args u6 of
               (Inl e, u') \<Rightarrow> (Inl e, u')
             | (Inr r, u') \<Rightarrow>
                 (Inr r, on_describer (traceWrapping ''<-'' ''T inner'') (snd (Tracer_exit st u'))))
         \<and> t = \<lparr>t_ref = nextTransaction u1, t_id = numTransactions (tracer u1) + 1, t_value = v\<rparr>
         \<and> s = \<lparr>s_ref = nextSegment u3, s_id = numSegments u3 (t_ref t) + 1, s_transaction = t,
                 s_value = root\<rparr>
         \<and> c = \<lparr>c_id = 1, c_segment = s, c_value = JFun (fn_id h)\<rparr>
         \<and> st = \<lparr>transaction = t, segment = s, call = c, full = True\<rparr>
         \<and> numTransactions (tracer u2) = numTransactions (tracer u1) + 1
         \<and> nextTransaction u2 = Suc (nextTransaction u1)
         \<and> numSegments u2 = (numSegments u1)(nextTransaction u1 := 0)
         \<and> creations (describer (tracer u2)) = creations (describer (tracer u1)) @ [''+T'']
         \<and> trace (describer (tracer u2)) = trace (describer (tracer u1))
         \<and> context_obj u2 = context_obj u1
         \<and> numSegments u6 = (numSegments u3)(t_ref t := numSegments u3 (t_ref t) + 1)
         \<and> numCalls u6 = (numCalls u3)(nextSegment u3 := 1)
         \<and> nextSegment u6 = Suc (nextSegment u3)
         \<and> creations (describer (tracer u6)) = creations (describer (tracer u3)) @ [''+S'', ''+C'']
         \<and> trace (describer (tracer u6)) = trace (describer (tracer u3)) @ [''->'' @ Call_format c]
         \<and> Call_format c =
             ''T'' @ format_d (numTransactions (tracer u1) + 1)
             @ ''S'' @ format_d (numSegments u3 (nextTransaction u1) + 1) @ ''C1''
         \<and> context_obj u6 =
             \<lparr>state = Some st, stack = state (context_obj u3) # stack (context_obj u3)\<rparr>
         \<and> (\<forall>u'. trace (describer (tracer (on_describer (traceWrapping ''<-'' ''T inner'')
                                               (snd (Tracer_exit st u')))))
                     = trace (describer (tracer u')) @ [''<-'' @ Call_format c]
                \<and> creations (describer (tracer (on_describer (traceWrapping ''<-'' ''T inner'')
                                               (snd (Tracer_exit st u')))))
                     = creations (describer (tracer u'))
                \<and> wrappings (describer (tracer (on_describer (traceWrapping ''<-'' ''T inner'')
                                               (snd (Tracer_exit st u')))))
                     = wrappings (describer (tracer u')) @ [''<-T inner'']
                \<and> context_obj (on_describer (traceWrapping ''<-'' ''T inner'') (snd (Tracer_exit st u')))
                     = (case stack (context_obj u') of
                          [] \<Rightarrow> \<lparr>state = None, stack = []\<rparr>
                        | prior # rest \<Rightarrow> \<lparr>state = prior, stack = rest\<rparr>)
                \<and> (context_obj u' = context_obj u6 \<longrightarrow>
                     context_obj (on_describer (traceWrapping ''<-'' ''T inner'')
                                    (snd (Tracer_exit st u')))
                     = context_obj u3))"
    unfolding Let_def
    by (intro conjI allI impI;
        (rule run
         | (simp add: created_transaction_def created_segment_def created_call_def new_State_def
              Call_format_def format_d_1 addTransaction_fields addSegment_fields addCall_fields
              enter_fields exit_fields wrapping_fields exit_context v root; fail)
         | simp add: wrapping_fields exit_fields enter_fields addCall_fields addSegment_fields
             Context_exit_def))
qed


theorem transactionProxy_construction_only_wraps_witness:
  "createTransaction (const_agent (JObj 0) (JObj 1))
      (on_describer (traceWrapping ''->'' ''T inner'')
         (snd (transactionProxy (const_agent (JObj 0) (JObj 1)) marking_handler (fresh_world () ()))))
     = (Inr (JObj 0),
        on_describer (traceWrapping ''->'' ''T inner'')
         (snd (transactionProxy (const_agent (JObj 0) (JObj 1)) marking_handler (fresh_world () ()))))
   \<and> truthy (JObj 0) \<and> truthy (JObj 1)
   \<and> fst (wrapExecution ''T inner''
           (transactionProxy_inner (const_agent (JObj 0) (JObj 1)) marking_handler) Undefined []
           (snd (transactionProxy (const_agent (JObj 0) (JObj 1)) marking_handler
                  (fresh_world () ())))) = Inr (JNum 42)
   \<and> creations (describer (tracer (snd
        (wrapExecution ''T inner''
           (transactionProxy_inner (const_agent (JObj 0) (JObj 1)) marking_handler) Undefined []
           (snd (transactionProxy (const_agent (JObj 0) (JObj 1)) marking_handler
                  (fresh_world () ())))))))
       = [''+T'', ''+S'', ''+C'']
   \<and> trace (describer (tracer (snd
        (wrapExecution ''T inner''
           (transactionProxy_inner (const_agent (JObj 0) (JObj 1)) marking_handler) Undefined []
           (snd (transactionProxy (const_agent (JObj 0) (JObj 1)) marking_handler
                  (fresh_world () ())))))))
       = [''->T1S1C1'', ''<-T1S1C1'']
   \<and> context_obj (snd
        (wrapExecution ''T inner''
           (transactionProxy_inner (const_agent (JObj 0) (JObj 1)) marking_handler) Undefined []
           (snd (transactionProxy (const_agent (JObj 0) (JObj 1)) marking_handler
                  (fresh_world () ())))))
       = \<lparr>state = None, stack = []\<rparr>
   \<and> wrappings (describer (tracer (snd
        (wrapExecution ''T inner''
           (transactionProxy_inner (const_agent (JObj 0) (JObj 1)) marking_handler) Undefined []
           (snd (transactionProxy (const_agent (JObj 0) (JObj 1)) marking_handler
                  (fresh_world () ())))))))
       = [''->T outer'', ''<-T outer'', ''->T inner'', ''handler'', ''<-T inner'']"
proof -
  let ?ag = "const_agent (JObj 0) (JObj 1) :: (unit, unit) world Agent"
  let ?h = "marking_handler :: (unit, unit) world func"
  let ?built = "snd (transactionProxy ?ag ?h (fresh_world () ()))"
  let ?inner = "on_describer (traceWrapping ''->'' ''T inner'') ?built"
  let ?added = "snd (Tracer_addTransaction (JObj 0) ?inner)"
  let ?p = "wrapExecution ''T inner'' (transactionProxy_inner ?ag ?h)"
  have hyp: "createTransaction ?ag ?inner = (Inr (JObj 0), ?inner) \<and> truthy (JObj 0)
      \<and> getTrace_root ?ag (JObj 0) (snd (Tracer_addTransaction (JObj 0) ?inner)) = (Inr (JObj 1), ?added)
      \<and> truthy (JObj 1)"
    by (simp add: const_agent_simps)
  note run = transactionProxy_construction_only_wraps
    [where ag = ?ag and h = ?h and w = "fresh_world () ()" and u = ?built and v = "JObj 0"
       and ?u1.0 = ?inner and root = "JObj 1" and ?u3.0 = ?added and this = Undefined
       and args = "[]",
     THEN conjunct2, THEN conjunct2, THEN mp, OF hyp, unfolded Let_def, THEN conjunct1]
  note fields = marking_handler_apply wrapping_fields exit_fields enter_fields addCall_fields
    addSegment_fields addTransaction_fields transactionProxy_construct fresh_world_fields
    created_call_def created_segment_def created_transaction_def new_State_def Call_format_def
    format_d_1 Context_exit_def
  have 1: "fst (?p Undefined [] ?built) = Inr (JNum 42)"
    unfolding run by (simp add: marking_handler_apply)
  have 2: "creations (describer (tracer (snd (?p Undefined [] ?built)))) = [''+T'', ''+S'', ''+C'']"
    unfolding run by (simp add: fields)
  have 3: "trace (describer (tracer (snd (?p Undefined [] ?built)))) = [''->T1S1C1'', ''<-T1S1C1'']"
    unfolding run by (simp add: fields)
  have 4: "context_obj (snd (?p Undefined [] ?built)) = \<lparr>state = None, stack = []\<rparr>"
    unfolding run by (simp add: fields)
  have 5: "wrappings (describer (tracer (snd (?p Undefined [] ?built))))
       = [''->T outer'', ''<-T outer'', ''->T inner'', ''handler'', ''<-T inner'']"
    unfolding run by (simp add: fields)
  from hyp 1 2 3 4 5 show ?thesis
    by (simp only: simp_thms)
qed

section \<open>segmentProxy\<close>

lemma segmentProxy_construct:
  "segmentProxy h w =
     (Inr (wrapExecution ''S inner'' (segmentProxy_inner h)),
      on_describer (traceWrapping ''<-'' ''S outer'') (on_describer (traceWrapping ''->'' ''S outer'') w))"
  by (simp add: segmentProxy_def wrapExecution_def js_return_def)

lemma segmentProxy_passthrough:
  "state (context_obj u) = None \<Longrightarrow>
   wrapExecution ''S inner'' (segmentProxy_inner h) this args u =
     (case fn_apply h this args (on_describer (traceWrapping ''->'' ''S inner'') u) of
        (Inl e, u') \<Rightarrow> (Inl e, u')
      | (Inr r, u') \<Rightarrow> (Inr r, on_describer (traceWrapping ''<-'' ''S inner'') u'))"
  by (simp add: wrapExecution_apply segmentProxy_inner_def wrapping_fields)

lemma segmentProxy_inner_run:
  assumes active: "state (context_obj u) = Some st0"
    and v: "truthy (s_value (segment st0))"
  shows "segmentProxy_inner h this args u =
     in_state
       (new_State (transaction st0) (created_segment (transaction st0) (s_value (segment st0)) u)
          (created_call (created_segment (transaction st0) (s_value (segment st0)) u) (JFun (fn_id h))
             (snd (Tracer_addSegment (transaction st0) (s_value (segment st0)) u)))
          True)
       (fn_apply h this args)
       (snd (Tracer_addCall (created_segment (transaction st0) (s_value (segment st0)) u)
              (JFun (fn_id h))
              (snd (Tracer_addSegment (transaction st0) (s_value (segment st0)) u))))"
proof -
  let ?t = "transaction st0"
  let ?v = "s_value (segment st0)"
  let ?s = "created_segment ?t ?v u"
  obtain u4 where u4: "u4 = snd (Tracer_addSegment ?t ?v u)"
    and seg: "Tracer_addSegment ?t ?v u = (Inr ?s, u4)"
    using addSegment_ok [OF v, of ?t u] by simp
  obtain u5 where u5: "u5 = snd (Tracer_addCall ?s (JFun (fn_id h)) u4)"
    and cal: "Tracer_addCall ?s (JFun (fn_id h)) u4 = (Inr (created_call ?s (JFun (fn_id h)) u4), u5)"
    using addCall_ok [of "JFun (fn_id h)" ?s u4] by simp
  have "segmentProxy_inner h this args u =
      in_state (new_State ?t ?s (created_call ?s (JFun (fn_id h)) u4) True) (fn_apply h this args) u5"
    using active seg cal
    by (simp add: segmentProxy_inner_def in_state_def js_bind_def Let_def)
  then show ?thesis
    by (simp only: u5 u4)
qed

lemma segmentProxy_invoke:
  assumes active: "state (context_obj u) = Some st0"
    and v: "truthy (s_value (segment st0))"
  shows "(let u0 = on_describer (traceWrapping ''->'' ''S inner'') u;
              t = transaction st0;
              s = created_segment t (s_value (segment st0)) u0;
              u4 = snd (Tracer_addSegment t (s_value (segment st0)) u0);
              c = created_call s (JFun (fn_id h)) u4;
              u5 = snd (Tracer_addCall s (JFun (fn_id h)) u4);
              st = new_State t s c True
          in wrapExecution ''S inner'' (segmentProxy_inner h) this args u =
              (case fn_apply h this args (snd (Tracer_enter st u5)) of
                 (Inl e, u') \<Rightarrow> (Inl e, u')
               | (Inr r, u') \<Rightarrow>
                   (Inr r, on_describer (traceWrapping ''<-'' ''S inner'') (snd (Tracer_exit st u')))))"
proof -
  have "state (context_obj (on_describer (traceWrapping ''->'' ''S inner'') u)) = Some st0"
    using active by (simp add: wrapping_fields)
  from segmentProxy_inner_run [OF this v, of h this args] show ?thesis
    unfolding Let_def by (rule wrapped_in_state)
qed

text \<open>
  C2. The callable returned by \<^verbatim>\<open>segmentProxy(h)\<close> is the inner wrapper. Invoked
  while the context state is none, it applies \<open>h\<close> to the same receiver and
  arguments and returns what \<open>h\<close> returns (or raises what \<open>h\<close> raises); between the
  invocation and the start of \<open>h\<close>, and between the end of \<open>h\<close> and the return,
  only the wrapping and verbose logs change: no Transaction, Segment or Call is
  created, nothing is entered or exited. Invoked while a State \<open>st0\<close> is active, it
  creates one Segment under the transaction of \<open>st0\<close>, with the next id of that
  transaction and the value of the segment of \<open>st0\<close>, and one Call (the first of
  the new Segment) whose value is \<open>h\<close>; it enters the State made of the
  transaction, the new Segment and the new Call, once, before \<open>h\<close> starts (one
  \<open>->\<close> token, the State active, \<open>st0\<close> saved), applies \<open>h\<close>, exits that State once
  after \<open>h\<close> has returned (one \<open><-\<close> token), and returns what \<open>h\<close> returned.
\<close>

theorem segmentProxy_invocation:
  "fst (segmentProxy h w) = Inr (wrapExecution ''S inner'' (segmentProxy_inner h))
   \<and> (state (context_obj u) = None \<longrightarrow>
       (let u0 = on_describer (traceWrapping ''->'' ''S inner'') u
        in wrapExecution ''S inner'' (segmentProxy_inner h) this args u =
             (case fn_apply h this args u0 of
                (Inl e, u') \<Rightarrow> (Inl e, u')
              | (Inr r, u') \<Rightarrow> (Inr r, on_describer (traceWrapping ''<-'' ''S inner'') u'))
         \<and> numTransactions (tracer u0) = numTransactions (tracer u)
         \<and> numSegments u0 = numSegments u \<and> numCalls u0 = numCalls u
         \<and> nextTransaction u0 = nextTransaction u \<and> nextSegment u0 = nextSegment u
         \<and> creations (describer (tracer u0)) = creations (describer (tracer u))
         \<and> trace (describer (tracer u0)) = trace (describer (tracer u))
         \<and> context_obj u0 = context_obj u
         \<and> (\<forall>u'. creations (describer (tracer (on_describer (traceWrapping ''<-'' ''S inner'') u')))
                   = creations (describer (tracer u'))
                \<and> trace (describer (tracer (on_describer (traceWrapping ''<-'' ''S inner'') u')))
                   = trace (describer (tracer u'))
                \<and> context_obj (on_describer (traceWrapping ''<-'' ''S inner'') u') = context_obj u')))
   \<and> (state (context_obj u) = Some st0 \<and> truthy (s_value (segment st0)) \<longrightarrow>
       (let u0 = on_describer (traceWrapping ''->'' ''S inner'') u;
            t = transaction st0;
            s = created_segment t (s_value (segment st0)) u0;
            u4 = snd (Tracer_addSegment t (s_value (segment st0)) u0);
            c = created_call s (JFun (fn_id h)) u4;
            u5 = snd (Tracer_addCall s (JFun (fn_id h)) u4);
            st = new_State t s c True;
            u6 = snd (Tracer_enter st u5)
        in wrapExecution ''S inner'' (segmentProxy_inner h) this args u =
             (case fn_apply h this args u6 of
                (Inl e, u') \<Rightarrow> (Inl e, u')
              | (Inr r, u') \<Rightarrow>
                  (Inr r, on_describer (traceWrapping ''<-'' ''S inner'') (snd (Tracer_exit st u'))))
         \<and> s = \<lparr>s_ref = nextSegment u, s_id = numSegments u (t_ref t) + 1, s_transaction = t,
                 s_value = s_value (segment st0)\<rparr>
         \<and> c = \<lparr>c_id = 1, c_segment = s, c_value = JFun (fn_id h)\<rparr>
         \<and> numTransactions (tracer u6) = numTransactions (tracer u)
         \<and> nextTransaction u6 = nextTransaction u
         \<and> numSegments u6 = (numSegments u)(t_ref t := numSegments u (t_ref t) + 1)
         \<and> numCalls u6 = (numCalls u)(nextSegment u := 1)
         \<and> nextSegment u6 = Suc (nextSegment u)
         \<and> creations (describer (tracer u6)) = creations (describer (tracer u)) @ [''+S'', ''+C'']
         \<and> trace (describer (tracer u6)) = trace (describer (tracer u)) @ [''->'' @ Call_format c]
         \<and> context_obj u6 = \<lparr>state = Some st, stack = Some st0 # stack (context_obj u)\<rparr>
         \<and> (\<forall>u'. creations (describer (tracer (on_describer (traceWrapping ''<-'' ''S inner'')
                                                   (snd (Tracer_exit st u')))))
                   = creations (describer (tracer u'))
                \<and> trace (describer (tracer (on_describer (traceWrapping ''<-'' ''S inner'')
                                               (snd (Tracer_exit st u')))))
                   = trace (describer (tracer u')) @ [''<-'' @ Call_format c]
                \<and> context_obj (on_describer (traceWrapping ''<-'' ''S inner'') (snd (Tracer_exit st u')))
                   = Context_exit st (context_obj u'))))"
proof (intro conjI impI)
  show "fst (segmentProxy h w) = Inr (wrapExecution ''S inner'' (segmentProxy_inner h))"
    by (simp add: segmentProxy_construct)
next
  assume "state (context_obj u) = None"
  then show "let u0 = on_describer (traceWrapping ''->'' ''S inner'') u
        in wrapExecution ''S inner'' (segmentProxy_inner h) this args u =
             (case fn_apply h this args u0 of
                (Inl e, u') \<Rightarrow> (Inl e, u')
              | (Inr r, u') \<Rightarrow> (Inr r, on_describer (traceWrapping ''<-'' ''S inner'') u'))
         \<and> numTransactions (tracer u0) = numTransactions (tracer u)
         \<and> numSegments u0 = numSegments u \<and> numCalls u0 = numCalls u
         \<and> nextTransaction u0 = nextTransaction u \<and> nextSegment u0 = nextSegment u
         \<and> creations (describer (tracer u0)) = creations (describer (tracer u))
         \<and> trace (describer (tracer u0)) = trace (describer (tracer u))
         \<and> context_obj u0 = context_obj u
         \<and> (\<forall>u'. creations (describer (tracer (on_describer (traceWrapping ''<-'' ''S inner'') u')))
                   = creations (describer (tracer u'))
                \<and> trace (describer (tracer (on_describer (traceWrapping ''<-'' ''S inner'') u')))
                   = trace (describer (tracer u'))
                \<and> context_obj (on_describer (traceWrapping ''<-'' ''S inner'') u') = context_obj u')"
    by (simp add: Let_def segmentProxy_passthrough wrapping_fields)
next
  assume a: "state (context_obj u) = Some st0 \<and> truthy (s_value (segment st0))"
  then have active: "state (context_obj u) = Some st0" and v: "truthy (s_value (segment st0))"
    by simp_all
  note run = segmentProxy_invoke [OF active v, of h this args, unfolded Let_def]
  show "let u0 = on_describer (traceWrapping ''->'' ''S inner'') u;
            t = transaction st0;
            s = created_segment t (s_value (segment st0)) u0;
            u4 = snd (Tracer_addSegment t (s_value (segment st0)) u0);
            c = created_call s (JFun (fn_id h)) u4;
            u5 = snd (Tracer_addCall s (JFun (fn_id h)) u4);
            st = new_State t s c True;
            u6 = snd (Tracer_enter st u5)
        in wrapExecution ''S inner'' (segmentProxy_inner h) this args u =
             (case fn_apply h this args u6 of
                (Inl e, u') \<Rightarrow> (Inl e, u')
              | (Inr r, u') \<Rightarrow>
                  (Inr r, on_describer (traceWrapping ''<-'' ''S inner'') (snd (Tracer_exit st u'))))
         \<and> s = \<lparr>s_ref = nextSegment u, s_id = numSegments u (t_ref t) + 1, s_transaction = t,
                 s_value = s_value (segment st0)\<rparr>
         \<and> c = \<lparr>c_id = 1, c_segment = s, c_value = JFun (fn_id h)\<rparr>
         \<and> numTransactions (tracer u6) = numTransactions (tracer u)
         \<and> nextTransaction u6 = nextTransaction u
         \<and> numSegments u6 = (numSegments u)(t_ref t := numSegments u (t_ref t) + 1)
         \<and> numCalls u6 = (numCalls u)(nextSegment u := 1)
         \<and> nextSegment u6 = Suc (nextSegment u)
         \<and> creations (describer (tracer u6)) = creations (describer (tracer u)) @ [''+S'', ''+C'']
         \<and> trace (describer (tracer u6)) = trace (describer (tracer u)) @ [''->'' @ Call_format c]
         \<and> context_obj u6 = \<lparr>state = Some st, stack = Some st0 # stack (context_obj u)\<rparr>
         \<and> (\<forall>u'. creations (describer (tracer (on_describer (traceWrapping ''<-'' ''S inner'')
                                                   (snd (Tracer_exit st u')))))
                   = creations (describer (tracer u'))
                \<and> trace (describer (tracer (on_describer (traceWrapping ''<-'' ''S inner'')
                                               (snd (Tracer_exit st u')))))
                   = trace (describer (tracer u')) @ [''<-'' @ Call_format c]
                \<and> context_obj (on_describer (traceWrapping ''<-'' ''S inner'') (snd (Tracer_exit st u')))
                   = Context_exit st (context_obj u'))"
    unfolding Let_def
    apply (intro conjI allI)
    apply (rule run)
                apply (simp_all add: created_segment_def created_call_def new_State_def
        addSegment_fields addCall_fields enter_fields exit_fields wrapping_fields v active)
    done
qed

theorem segmentProxy_invocation_witness:
  "state (context_obj (fresh_world () ())) = None
   \<and> fst (wrapExecution ''S inner'' (segmentProxy_inner marking_handler) Undefined []
            (fresh_world () ())) = Inr (JNum 42)
   \<and> creations (describer (tracer (snd (wrapExecution ''S inner'' (segmentProxy_inner marking_handler)
            Undefined [] (fresh_world () ()))))) = []
   \<and> state (context_obj active_world) = Some example_state
   \<and> truthy (s_value (segment example_state))
   \<and> fst (wrapExecution ''S inner'' (segmentProxy_inner marking_handler) Undefined [] active_world)
       = Inr (JNum 42)
   \<and> trace (describer (tracer (snd (wrapExecution ''S inner'' (segmentProxy_inner marking_handler)
            Undefined [] active_world))))
       = [''->T1S1C1'', ''->T1S2C1'', ''<-T1S2C1'']"
proof -
  let ?h = "marking_handler :: (unit, unit) world func"
  let ?p = "wrapExecution ''S inner'' (segmentProxy_inner ?h)"
  have none: "state (context_obj (fresh_world () ())) = None"
    by (simp add: fresh_world_def new_Context_def)
  have some: "state (context_obj active_world) = Some example_state
      \<and> truthy (s_value (segment example_state))"
    by (simp add: active_world_state example_state_fields)
  note pass = segmentProxy_invocation
    [of ?h "fresh_world () ()" "fresh_world () ()" Undefined "[]" example_state,
     THEN conjunct2, THEN conjunct1, THEN mp, OF none, unfolded Let_def, THEN conjunct1]
  note act = segmentProxy_invocation
    [of ?h "fresh_world () ()" active_world Undefined "[]" example_state,
     THEN conjunct2, THEN conjunct2, THEN mp, OF some, unfolded Let_def, THEN conjunct1]
  have 1: "fst (?p Undefined [] (fresh_world () ())) = Inr (JNum 42)"
    unfolding pass by (simp add: marking_handler_apply)
  have 2: "creations (describer (tracer (snd (?p Undefined [] (fresh_world () ()))))) = []"
    unfolding pass
    by (simp add: marking_handler_apply wrapping_fields fresh_world_def new_Describer_def)
  have 3: "fst (?p Undefined [] active_world) = Inr (JNum 42)"
    unfolding act by (simp add: marking_handler_apply)
  have 4: "trace (describer (tracer (snd (?p Undefined [] active_world))))
       = [''->T1S1C1'', ''->T1S2C1'', ''<-T1S2C1'']"
    unfolding act
    by (simp add: marking_handler_apply wrapping_fields exit_fields enter_fields addCall_fields
        addSegment_fields active_world_fields example_state_fields created_segment_def
        created_call_def new_State_def Call_format_def example_transaction_def format_d_1 format_d_2)
  from none some 1 2 3 4 show ?thesis
    by (simp only: simp_thms)
qed

text \<open>
  C10. \<^verbatim>\<open>segmentProxy\<close> returns the same callable whatever the world it is
  constructed in, and that callable chooses between passthrough and tracking from
  the context state it finds when it is invoked. Constructed with no State active
  and invoked with a State active, it creates a Segment on the active transaction
  and a Call with id 1 on that Segment, enters the State of the three (the token
  \<^verbatim>\<open>->\<close> is logged and the Context holds that State above the one that was
  active), runs the handler, and on its return exits (the token \<^verbatim>\<open><-\<close> of the
  same Call is logged, nothing is created, and the Context drops its top State, so
  that a handler that leaves the Context as it found it gets the Context of the
  invocation back). Constructed with a State active and invoked with none, it is a
  passthrough: no counter, no creation, no token and no change of the Context,
  before and after the handler.
\<close>

theorem segmentProxy_decides_at_invocation:
  "fst (segmentProxy h w) = fst (segmentProxy h w')
   \<and> (state (context_obj w) = None \<and> segmentProxy h w = (Inr p, w1)
        \<and> state (context_obj u) = Some st0 \<and> truthy (s_value (segment st0)) \<longrightarrow>
       (let u0 = on_describer (traceWrapping ''->'' ''S inner'') u;
            t = transaction st0;
            s = created_segment t (s_value (segment st0)) u0;
            u4 = snd (Tracer_addSegment t (s_value (segment st0)) u0);
            c = created_call s (JFun (fn_id h)) u4;
            u5 = snd (Tracer_addCall s (JFun (fn_id h)) u4);
            st = new_State t s c True;
            u6 = snd (Tracer_enter st u5)
        in p this args u =
             (case fn_apply h this args u6 of
                (Inl e, u') \<Rightarrow> (Inl e, u')
              | (Inr r, u') \<Rightarrow>
                  (Inr r, on_describer (traceWrapping ''<-'' ''S inner'') (snd (Tracer_exit st u'))))
         \<and> s = \<lparr>s_ref = nextSegment u, s_id = numSegments u (t_ref t) + 1, s_transaction = t,
                 s_value = s_value (segment st0)\<rparr>
         \<and> c = \<lparr>c_id = 1, c_segment = s, c_value = JFun (fn_id h)\<rparr>
         \<and> st = \<lparr>transaction = t, segment = s, call = c, full = True\<rparr>
         \<and> numSegments u6 = (numSegments u)(t_ref t := numSegments u (t_ref t) + 1)
         \<and> numCalls u6 = (numCalls u)(nextSegment u := 1)
         \<and> nextSegment u6 = Suc (nextSegment u)
         \<and> creations (describer (tracer u6)) = creations (describer (tracer u)) @ [''+S'', ''+C'']
         \<and> trace (describer (tracer u6)) = trace (describer (tracer u)) @ [''->'' @ Call_format c]
         \<and> context_obj u6 = \<lparr>state = Some st, stack = Some st0 # stack (context_obj u)\<rparr>
         \<and> (\<forall>u'. creations (describer (tracer (on_describer (traceWrapping ''<-'' ''S inner'')
                                                   (snd (Tracer_exit st u')))))
                   = creations (describer (tracer u'))
                \<and> trace (describer (tracer (on_describer (traceWrapping ''<-'' ''S inner'')
                                               (snd (Tracer_exit st u')))))
                   = trace (describer (tracer u')) @ [''<-'' @ Call_format c]
                \<and> wrappings (describer (tracer (on_describer (traceWrapping ''<-'' ''S inner'')
                                               (snd (Tracer_exit st u')))))
                   = wrappings (describer (tracer u')) @ [''<-S inner'']
                \<and> context_obj (on_describer (traceWrapping ''<-'' ''S inner'') (snd (Tracer_exit st u')))
                   = (case stack (context_obj u') of
                        [] \<Rightarrow> \<lparr>state = None, stack = []\<rparr>
                      | prior # rest \<Rightarrow> \<lparr>state = prior, stack = rest\<rparr>)
                \<and> (context_obj u' = context_obj u6 \<longrightarrow>
                     context_obj (on_describer (traceWrapping ''<-'' ''S inner'')
                                    (snd (Tracer_exit st u')))
                     = context_obj u))))
   \<and> (state (context_obj w) = Some st1 \<and> segmentProxy h w = (Inr p, w1)
        \<and> state (context_obj u) = None \<longrightarrow>
       (let u0 = on_describer (traceWrapping ''->'' ''S inner'') u
        in p this args u =
             (case fn_apply h this args u0 of
                (Inl e, u') \<Rightarrow> (Inl e, u')
              | (Inr r, u') \<Rightarrow> (Inr r, on_describer (traceWrapping ''<-'' ''S inner'') u'))
         \<and> numTransactions (tracer u0) = numTransactions (tracer u)
         \<and> numSegments u0 = numSegments u \<and> numCalls u0 = numCalls u
         \<and> nextTransaction u0 = nextTransaction u \<and> nextSegment u0 = nextSegment u
         \<and> creations (describer (tracer u0)) = creations (describer (tracer u))
         \<and> trace (describer (tracer u0)) = trace (describer (tracer u))
         \<and> context_obj u0 = context_obj u
         \<and> (\<forall>u'. numSegments (on_describer (traceWrapping ''<-'' ''S inner'') u') = numSegments u'
                \<and> numCalls (on_describer (traceWrapping ''<-'' ''S inner'') u') = numCalls u'
                \<and> creations (describer (tracer (on_describer (traceWrapping ''<-'' ''S inner'') u')))
                   = creations (describer (tracer u'))
                \<and> trace (describer (tracer (on_describer (traceWrapping ''<-'' ''S inner'') u')))
                   = trace (describer (tracer u'))
                \<and> context_obj (on_describer (traceWrapping ''<-'' ''S inner'') u') = context_obj u')))"
proof (intro conjI impI)
  show "fst (segmentProxy h w) = fst (segmentProxy h w')"
    by (simp add: segmentProxy_construct)
next
  assume a: "state (context_obj w) = None \<and> segmentProxy h w = (Inr p, w1)
        \<and> state (context_obj u) = Some st0 \<and> truthy (s_value (segment st0))"
  then have p: "p = wrapExecution ''S inner'' (segmentProxy_inner h)"
    and active: "state (context_obj u) = Some st0" and v: "truthy (s_value (segment st0))"
    by (simp_all add: segmentProxy_construct)
  note run = segmentProxy_invoke [OF active v, of h this args, unfolded Let_def, folded p]
  have cx: "\<lparr>state = Some st0, stack = stack (context_obj u)\<rparr> = context_obj u"
    using active by simp
  show "let u0 = on_describer (traceWrapping ''->'' ''S inner'') u;
            t = transaction st0;
            s = created_segment t (s_value (segment st0)) u0;
            u4 = snd (Tracer_addSegment t (s_value (segment st0)) u0);
            c = created_call s (JFun (fn_id h)) u4;
            u5 = snd (Tracer_addCall s (JFun (fn_id h)) u4);
            st = new_State t s c True;
            u6 = snd (Tracer_enter st u5)
        in p this args u =
             (case fn_apply h this args u6 of
                (Inl e, u') \<Rightarrow> (Inl e, u')
              | (Inr r, u') \<Rightarrow>
                  (Inr r, on_describer (traceWrapping ''<-'' ''S inner'') (snd (Tracer_exit st u'))))
         \<and> s = \<lparr>s_ref = nextSegment u, s_id = numSegments u (t_ref t) + 1, s_transaction = t,
                 s_value = s_value (segment st0)\<rparr>
         \<and> c = \<lparr>c_id = 1, c_segment = s, c_value = JFun (fn_id h)\<rparr>
         \<and> st = \<lparr>transaction = t, segment = s, call = c, full = True\<rparr>
         \<and> numSegments u6 = (numSegments u)(t_ref t := numSegments u (t_ref t) + 1)
         \<and> numCalls u6 = (numCalls u)(nextSegment u := 1)
         \<and> nextSegment u6 = Suc (nextSegment u)
         \<and> creations (describer (tracer u6)) = creations (describer (tracer u)) @ [''+S'', ''+C'']
         \<and> trace (describer (tracer u6)) = trace (describer (tracer u)) @ [''->'' @ Call_format c]
         \<and> context_obj u6 = \<lparr>state = Some st, stack = Some st0 # stack (context_obj u)\<rparr>
         \<and> (\<forall>u'. creations (describer (tracer (on_describer (traceWrapping ''<-'' ''S inner'')
                                                   (snd (Tracer_exit st u')))))
                   = creations (describer (tracer u'))
                \<and> trace (describer (tracer (on_describer (traceWrapping ''<-'' ''S inner'')
                                               (snd (Tracer_exit st u')))))
                   = trace (describer (tracer u')) @ [''<-'' @ Call_format c]
                \<and> wrappings (describer (tracer (on_describer (traceWrapping ''<-'' ''S inner'')
                                               (snd (Tracer_exit st u')))))
                   = wrappings (describer (tracer u')) @ [''<-S inner'']
                \<and> context_obj (on_describer (traceWrapping ''<-'' ''S inner'') (snd (Tracer_exit st u')))
                   = (case stack (context_obj u') of
                        [] \<Rightarrow> \<lparr>state = None, stack = []\<rparr>
                      | prior # rest \<Rightarrow> \<lparr>state = prior, stack = rest\<rparr>)
                \<and> (context_obj u' = context_obj u6 \<longrightarrow>
                     context_obj (on_describer (traceWrapping ''<-'' ''S inner'')
                                    (snd (Tracer_exit st u')))
                     = context_obj u))"
    unfolding Let_def
    by (intro conjI allI impI;
        (rule run
         | (simp add: created_segment_def created_call_def new_State_def
              addSegment_fields addCall_fields enter_fields exit_fields wrapping_fields
              exit_context v active; fail)
         | simp add: wrapping_fields exit_fields enter_fields addCall_fields addSegment_fields
             Context_exit_def active cx))
next
  assume a: "state (context_obj w) = Some st1 \<and> segmentProxy h w = (Inr p, w1)
        \<and> state (context_obj u) = None"
  then have p: "p = wrapExecution ''S inner'' (segmentProxy_inner h)"
    and none: "state (context_obj u) = None"
    by (simp_all add: segmentProxy_construct)
  show "let u0 = on_describer (traceWrapping ''->'' ''S inner'') u
        in p this args u =
             (case fn_apply h this args u0 of
                (Inl e, u') \<Rightarrow> (Inl e, u')
              | (Inr r, u') \<Rightarrow> (Inr r, on_describer (traceWrapping ''<-'' ''S inner'') u'))
         \<and> numTransactions (tracer u0) = numTransactions (tracer u)
         \<and> numSegments u0 = numSegments u \<and> numCalls u0 = numCalls u
         \<and> nextTransaction u0 = nextTransaction u \<and> nextSegment u0 = nextSegment u
         \<and> creations (describer (tracer u0)) = creations (describer (tracer u))
         \<and> trace (describer (tracer u0)) = trace (describer (tracer u))
         \<and> context_obj u0 = context_obj u
         \<and> (\<forall>u'. numSegments (on_describer (traceWrapping ''<-'' ''S inner'') u') = numSegments u'
                \<and> numCalls (on_describer (traceWrapping ''<-'' ''S inner'') u') = numCalls u'
                \<and> creations (describer (tracer (on_describer (traceWrapping ''<-'' ''S inner'') u')))
                   = creations (describer (tracer u'))
                \<and> trace (describer (tracer (on_describer (traceWrapping ''<-'' ''S inner'') u')))
                   = trace (describer (tracer u'))
                \<and> context_obj (on_describer (traceWrapping ''<-'' ''S inner'') u') = context_obj u')"
    by (simp add: Let_def p segmentProxy_passthrough [OF none] wrapping_fields)
qed

theorem segmentProxy_decides_at_invocation_witness:
  "state (context_obj (fresh_world () ())) = None
   \<and> segmentProxy marking_handler (fresh_world () ())
       = (Inr (wrapExecution ''S inner'' (segmentProxy_inner marking_handler)),
          snd (segmentProxy marking_handler (fresh_world () ())))
   \<and> state (context_obj active_world) = Some example_state
   \<and> truthy (s_value (segment example_state))
   \<and> fst (wrapExecution ''S inner'' (segmentProxy_inner marking_handler) Undefined [] active_world)
       = Inr (JNum 42)
   \<and> creations (describer (tracer (snd (wrapExecution ''S inner'' (segmentProxy_inner marking_handler)
            Undefined [] active_world))))
       = [''+T'', ''+S'', ''+C'', ''+S'', ''+C'']
   \<and> trace (describer (tracer (snd (wrapExecution ''S inner'' (segmentProxy_inner marking_handler)
            Undefined [] active_world))))
       = [''->T1S1C1'', ''->T1S2C1'', ''<-T1S2C1'']
   \<and> context_obj (snd (wrapExecution ''S inner'' (segmentProxy_inner marking_handler)
            Undefined [] active_world))
       = context_obj active_world
   \<and> segmentProxy marking_handler active_world
       = (Inr (wrapExecution ''S inner'' (segmentProxy_inner marking_handler)),
          snd (segmentProxy marking_handler active_world))
   \<and> creations (describer (tracer (snd (wrapExecution ''S inner'' (segmentProxy_inner marking_handler)
            Undefined [] (fresh_world () ()))))) = []
   \<and> trace (describer (tracer (snd (wrapExecution ''S inner'' (segmentProxy_inner marking_handler)
            Undefined [] (fresh_world () ()))))) = []
   \<and> context_obj (snd (wrapExecution ''S inner'' (segmentProxy_inner marking_handler)
            Undefined [] (fresh_world () ()))) = \<lparr>state = None, stack = []\<rparr>"
proof -
  let ?h = "marking_handler :: (unit, unit) world func"
  let ?p = "wrapExecution ''S inner'' (segmentProxy_inner ?h)"
  have late: "state (context_obj (fresh_world () ())) = None
      \<and> segmentProxy ?h (fresh_world () ()) = (Inr ?p, snd (segmentProxy ?h (fresh_world () ())))
      \<and> state (context_obj active_world) = Some example_state
      \<and> truthy (s_value (segment example_state))"
    by (simp add: fresh_world_def new_Context_def segmentProxy_construct active_world_state
        example_state_fields)
  have early: "state (context_obj active_world) = Some example_state
      \<and> segmentProxy ?h active_world = (Inr ?p, snd (segmentProxy ?h active_world))
      \<and> state (context_obj (fresh_world () ())) = None"
    by (simp add: fresh_world_def new_Context_def segmentProxy_construct active_world_state)
  note tracked = segmentProxy_decides_at_invocation
    [where h = ?h and w = "fresh_world () ()" and w' = "fresh_world () ()" and p = ?p
       and ?w1.0 = "snd (segmentProxy ?h (fresh_world () ()))" and u = active_world
       and ?st0.0 = example_state and this = Undefined and args = "[]" and ?st1.0 = example_state,
     THEN conjunct2, THEN conjunct1, THEN mp, OF late, unfolded Let_def, THEN conjunct1]
  note passed = segmentProxy_decides_at_invocation
    [where h = ?h and w = active_world and w' = active_world and p = ?p
       and ?w1.0 = "snd (segmentProxy ?h active_world)" and u = "fresh_world () ()"
       and ?st0.0 = example_state and this = Undefined and args = "[]" and ?st1.0 = example_state,
     THEN conjunct2, THEN conjunct2, THEN mp, OF early, unfolded Let_def, THEN conjunct1]
  note fields = marking_handler_apply wrapping_fields exit_fields enter_fields addCall_fields
    addSegment_fields active_world_fields example_state_fields fresh_world_fields
    created_segment_def created_call_def new_State_def Call_format_def example_transaction_def
    format_d_1 format_d_2 Context_exit_def
  have 1: "fst (?p Undefined [] active_world) = Inr (JNum 42)"
    unfolding tracked by (simp add: marking_handler_apply)
  have 2: "creations (describer (tracer (snd (?p Undefined [] active_world))))
       = [''+T'', ''+S'', ''+C'', ''+S'', ''+C'']"
    unfolding tracked by (simp add: fields)
  have 3: "trace (describer (tracer (snd (?p Undefined [] active_world))))
       = [''->T1S1C1'', ''->T1S2C1'', ''<-T1S2C1'']"
    unfolding tracked by (simp add: fields)
  have 4: "context_obj (snd (?p Undefined [] active_world)) = context_obj active_world"
    unfolding tracked by (simp add: fields)
  have 5: "creations (describer (tracer (snd (?p Undefined [] (fresh_world () ()))))) = []"
    unfolding passed by (simp add: fields)
  have 6: "trace (describer (tracer (snd (?p Undefined [] (fresh_world () ()))))) = []"
    unfolding passed by (simp add: fields)
  have 7: "context_obj (snd (?p Undefined [] (fresh_world () ()))) = \<lparr>state = None, stack = []\<rparr>"
    unfolding passed by (simp add: fields)
  from late early 1 2 3 4 5 6 7 show ?thesis
    by (simp only: simp_thms)
qed

section \<open>callbackProxy\<close>

lemma callbackProxy_none:
  "state (context_obj w) = None \<Longrightarrow> callbackProxy h w = (Inr (fn_apply h), w)"
  by (simp add: callbackProxy_def)

lemma callbackProxy_construct:
  assumes active: "state (context_obj w) = Some st0"
  shows "callbackProxy h w =
     (Inr (wrapExecution ''C inner''
            (callbackProxy_inner h st0
               (created_call (c_segment (call st0)) (JFun (fn_id h))
                  (on_describer (traceWrapping ''->'' ''C outer'') w)))),
      on_describer (traceWrapping ''<-'' ''C outer'')
        (snd (Tracer_addCall (c_segment (call st0)) (JFun (fn_id h))
                (on_describer (traceWrapping ''->'' ''C outer'') w))))"
proof -
  let ?w0 = "on_describer (traceWrapping ''->'' ''C outer'') w"
  let ?sg = "c_segment (call st0)"
  obtain w1 where w1: "w1 = snd (Tracer_addCall ?sg (JFun (fn_id h)) ?w0)"
    and cal: "Tracer_addCall ?sg (JFun (fn_id h)) ?w0 = (Inr (created_call ?sg (JFun (fn_id h)) ?w0), w1)"
    using addCall_ok [of "JFun (fn_id h)" ?sg ?w0] by simp
  have "callbackProxy h w =
     (Inr (wrapExecution ''C inner'' (callbackProxy_inner h st0 (created_call ?sg (JFun (fn_id h)) ?w0))),
      on_describer (traceWrapping ''<-'' ''C outer'') w1)"
    using active cal
    by (simp add: callbackProxy_def wrapExecution_apply js_bind_def js_return_def)
  then show ?thesis
    by (simp only: w1)
qed

lemma callbackProxy_inner_in_state:
  "callbackProxy_inner h st0 c this args =
     in_state (new_State (transaction st0) (segment st0) c True) (fn_apply h this args)"
  by (simp add: callbackProxy_inner_def in_state_def Let_def)

lemma callbackProxy_invoke:
  "wrapExecution ''C inner'' (callbackProxy_inner h st0 c) this args u =
     (case fn_apply h this args
             (snd (Tracer_enter (new_State (transaction st0) (segment st0) c True)
                     (on_describer (traceWrapping ''->'' ''C inner'') u))) of
        (Inl e, u') \<Rightarrow> (Inl e, u')
      | (Inr r, u') \<Rightarrow>
          (Inr r, on_describer (traceWrapping ''<-'' ''C inner'')
                    (snd (Tracer_exit (new_State (transaction st0) (segment st0) c True) u'))))"
  by (rule wrapped_in_state) (simp add: callbackProxy_inner_in_state)

lemma callback_state_idem:
  "new_State (transaction (new_State t s c True)) (segment (new_State t s c True)) c True
     = new_State t s c True"
  by (simp add: new_State_def)

lemma consistent_token:
  "consistent st \<Longrightarrow>
   Call_format (call st) =
     ''T'' @ format_d (t_id (transaction st)) @ ''S'' @ format_d (s_id (segment st))
     @ ''C'' @ format_d (c_id (call st))"
  by (simp add: consistent_def Call_format_def)

text \<open>
  C1, as the claim states it, fails. In the crossed world the active State is that
  of transaction 1, segment 2 and call 1 of segment 1. \<^verbatim>\<open>callbackProxy\<close> constructed
  there captures that State, whose segment is segment 2, and creates its Call under
  \<^verbatim>\<open>state.call.segment\<close>, which is segment 1: the Call is call 2 of segment 1, the
  call counter of segment 2 stays at 0, and an invocation of the returned callable
  logs \<^verbatim>\<open>->T1S1C2\<close> and \<^verbatim>\<open><-T1S1C2\<close>, tokens that name segment 1, while the
  captured segment has id 2.
\<close>

theorem callbackProxy_call_under_captured_segment_counterexample:
  "state (context_obj crossed_world) = Some crossed_state
   \<and> segment crossed_state = second_segment
   \<and> s_id second_segment = 2
   \<and> fst (callbackProxy marking_handler crossed_world)
       = Inr (wrapExecution ''C inner''
                (callbackProxy_inner marking_handler crossed_state
                   \<lparr>c_id = 2, c_segment = example_segment, c_value = JFun 0\<rparr>))
   \<and> example_segment \<noteq> second_segment
   \<and> s_id example_segment = 1
   \<and> numCalls (snd (callbackProxy marking_handler crossed_world)) (s_ref second_segment) = 0
   \<and> numCalls (snd (callbackProxy marking_handler crossed_world)) (s_ref example_segment) = 2
   \<and> trace (describer (tracer (snd (callbackProxy marking_handler crossed_world))))
       = [''->T1S1C1'']
   \<and> trace (describer (tracer (snd
        (wrapExecution ''C inner''
           (callbackProxy_inner marking_handler crossed_state
              \<lparr>c_id = 2, c_segment = example_segment, c_value = JFun 0\<rparr>)
           Undefined [] (snd (callbackProxy marking_handler crossed_world))))))
       = [''->T1S1C1'', ''->T1S1C2'', ''<-T1S1C2'']"
proof -
  let ?h = "marking_handler :: (unit, unit) world func"
  have active: "state (context_obj crossed_world) = Some crossed_state"
    by (simp add: crossed_world_fields)
  note built = callbackProxy_construct [OF active, of ?h]
  note fields = marking_handler_apply wrapping_fields exit_fields enter_fields addCall_fields
    crossed_world_fields crossed_state_fields example_state_fields created_call_def
    new_State_def Call_format_def example_segment_def second_segment_def
    example_transaction_def format_d_1 format_d_2
  show ?thesis
    unfolding built
    by (simp add: callbackProxy_invoke fields numeral_2_eq_2)
qed

text \<open>
  C1, amended. When \<^verbatim>\<open>callbackProxy(h)\<close> is constructed while a State \<open>st0\<close> is
  active, exactly one Call is created at construction, under the segment of the
  call of \<open>st0\<close> (\<^verbatim>\<open>state.call.segment\<close>), with the next id of that segment and with
  \<open>h\<close> as its value; that segment is the captured segment exactly when the call of
  \<open>st0\<close> was created under the segment of \<open>st0\<close>, in particular when \<open>st0\<close> is
  consistent. Nothing else is created and nothing is entered. Every later
  invocation of the returned callable, in whatever world and whatever State the
  context holds then, builds the State made of the transaction and segment of
  \<open>st0\<close> and of that Call (the assignment to the captured variable changes
  nothing: the State built from the State built is the same), enters it before
  \<open>h\<close> runs (the token \<^verbatim>\<open>->\<close> is logged and the Context holds that State above
  the one of the invocation), applies \<open>h\<close> to the same receiver and arguments,
  exits after \<open>h\<close> has returned (the token \<^verbatim>\<open><-\<close> is logged, nothing is created
  and the Context drops its top State, so that a handler that leaves the Context
  as it found it gets the Context of the invocation back) and returns what \<open>h\<close>
  returned. The tokens are those of that Call: they carry the id of the segment
  the Call was created under and of that segment's transaction, which are the
  captured segment and transaction when \<open>st0\<close> is consistent.
\<close>

theorem callbackProxy_resumes_captured_state:
  "state (context_obj w) = Some st0 \<longrightarrow>
   (let w0 = on_describer (traceWrapping ''->'' ''C outer'') w;
        sg = c_segment (call st0);
        c = created_call sg (JFun (fn_id h)) w0;
        w' = on_describer (traceWrapping ''<-'' ''C outer'') (snd (Tracer_addCall sg (JFun (fn_id h)) w0));
        st = new_State (transaction st0) (segment st0) c True;
        p = wrapExecution ''C inner'' (callbackProxy_inner h st0 c)
    in callbackProxy h w = (Inr p, w')
     \<and> c = \<lparr>c_id = numCalls w (s_ref sg) + 1, c_segment = sg, c_value = JFun (fn_id h)\<rparr>
     \<and> (c_segment c = segment st0 \<longleftrightarrow> c_segment (call st0) = segment st0)
     \<and> (consistent st0 \<longrightarrow> c_segment c = segment st0)
     \<and> numCalls w' = (numCalls w)(s_ref sg := numCalls w (s_ref sg) + 1)
     \<and> numSegments w' = numSegments w
     \<and> numTransactions (tracer w') = numTransactions (tracer w)
     \<and> nextTransaction w' = nextTransaction w \<and> nextSegment w' = nextSegment w
     \<and> creations (describer (tracer w')) = creations (describer (tracer w)) @ [''+C'']
     \<and> trace (describer (tracer w')) = trace (describer (tracer w))
     \<and> context_obj w' = context_obj w
     \<and> st = \<lparr>transaction = transaction st0, segment = segment st0, call = c, full = True\<rparr>
     \<and> new_State (transaction st) (segment st) c True = st
     \<and> Call_format c = ''T'' @ format_d (t_id (s_transaction sg)) @ ''S'' @ format_d (s_id sg)
          @ ''C'' @ format_d (numCalls w (s_ref sg) + 1)
     \<and> (consistent st0 \<longrightarrow>
          Call_format c = ''T'' @ format_d (t_id (transaction st0))
            @ ''S'' @ format_d (s_id (segment st0))
            @ ''C'' @ format_d (numCalls w (s_ref (segment st0)) + 1))
     \<and> (\<forall>u this args.
          (let u0 = on_describer (traceWrapping ''->'' ''C inner'') u;
               u1 = snd (Tracer_enter st u0)
           in p this args u =
                (case fn_apply h this args u1 of
                   (Inl e, u') \<Rightarrow> (Inl e, u')
                 | (Inr r, u') \<Rightarrow>
                     (Inr r, on_describer (traceWrapping ''<-'' ''C inner'') (snd (Tracer_exit st u'))))
            \<and> context_obj u1 = \<lparr>state = Some st, stack = state (context_obj u) # stack (context_obj u)\<rparr>
            \<and> trace (describer (tracer u1)) = trace (describer (tracer u)) @ [''->'' @ Call_format c]
            \<and> creations (describer (tracer u1)) = creations (describer (tracer u))
            \<and> numCalls u1 = numCalls u \<and> numSegments u1 = numSegments u
            \<and> numTransactions (tracer u1) = numTransactions (tracer u)
            \<and> (\<forall>u'. trace (describer (tracer (on_describer (traceWrapping ''<-'' ''C inner'')
                                                 (snd (Tracer_exit st u')))))
                       = trace (describer (tracer u')) @ [''<-'' @ Call_format c]
                   \<and> creations (describer (tracer (on_describer (traceWrapping ''<-'' ''C inner'')
                                                 (snd (Tracer_exit st u')))))
                       = creations (describer (tracer u'))
                   \<and> numCalls (on_describer (traceWrapping ''<-'' ''C inner'')
                                 (snd (Tracer_exit st u'))) = numCalls u'
                   \<and> numSegments (on_describer (traceWrapping ''<-'' ''C inner'')
                                    (snd (Tracer_exit st u'))) = numSegments u'
                   \<and> context_obj (on_describer (traceWrapping ''<-'' ''C inner'')
                                     (snd (Tracer_exit st u')))
                       = (case stack (context_obj u') of
                            [] \<Rightarrow> \<lparr>state = None, stack = []\<rparr>
                          | prior # rest \<Rightarrow> \<lparr>state = prior, stack = rest\<rparr>)
                   \<and> (context_obj u' = context_obj u1 \<longrightarrow>
                        context_obj (on_describer (traceWrapping ''<-'' ''C inner'')
                                       (snd (Tracer_exit st u')))
                        = context_obj u)))))"
proof
  assume active: "state (context_obj w) = Some st0"
  show "let w0 = on_describer (traceWrapping ''->'' ''C outer'') w;
        sg = c_segment (call st0);
        c = created_call sg (JFun (fn_id h)) w0;
        w' = on_describer (traceWrapping ''<-'' ''C outer'') (snd (Tracer_addCall sg (JFun (fn_id h)) w0));
        st = new_State (transaction st0) (segment st0) c True;
        p = wrapExecution ''C inner'' (callbackProxy_inner h st0 c)
    in callbackProxy h w = (Inr p, w')
     \<and> c = \<lparr>c_id = numCalls w (s_ref sg) + 1, c_segment = sg, c_value = JFun (fn_id h)\<rparr>
     \<and> (c_segment c = segment st0 \<longleftrightarrow> c_segment (call st0) = segment st0)
     \<and> (consistent st0 \<longrightarrow> c_segment c = segment st0)
     \<and> numCalls w' = (numCalls w)(s_ref sg := numCalls w (s_ref sg) + 1)
     \<and> numSegments w' = numSegments w
     \<and> numTransactions (tracer w') = numTransactions (tracer w)
     \<and> nextTransaction w' = nextTransaction w \<and> nextSegment w' = nextSegment w
     \<and> creations (describer (tracer w')) = creations (describer (tracer w)) @ [''+C'']
     \<and> trace (describer (tracer w')) = trace (describer (tracer w))
     \<and> context_obj w' = context_obj w
     \<and> st = \<lparr>transaction = transaction st0, segment = segment st0, call = c, full = True\<rparr>
     \<and> new_State (transaction st) (segment st) c True = st
     \<and> Call_format c = ''T'' @ format_d (t_id (s_transaction sg)) @ ''S'' @ format_d (s_id sg)
          @ ''C'' @ format_d (numCalls w (s_ref sg) + 1)
     \<and> (consistent st0 \<longrightarrow>
          Call_format c = ''T'' @ format_d (t_id (transaction st0))
            @ ''S'' @ format_d (s_id (segment st0))
            @ ''C'' @ format_d (numCalls w (s_ref (segment st0)) + 1))
     \<and> (\<forall>u this args.
          (let u0 = on_describer (traceWrapping ''->'' ''C inner'') u;
               u1 = snd (Tracer_enter st u0)
           in p this args u =
                (case fn_apply h this args u1 of
                   (Inl e, u') \<Rightarrow> (Inl e, u')
                 | (Inr r, u') \<Rightarrow>
                     (Inr r, on_describer (traceWrapping ''<-'' ''C inner'') (snd (Tracer_exit st u'))))
            \<and> context_obj u1 = \<lparr>state = Some st, stack = state (context_obj u) # stack (context_obj u)\<rparr>
            \<and> trace (describer (tracer u1)) = trace (describer (tracer u)) @ [''->'' @ Call_format c]
            \<and> creations (describer (tracer u1)) = creations (describer (tracer u))
            \<and> numCalls u1 = numCalls u \<and> numSegments u1 = numSegments u
            \<and> numTransactions (tracer u1) = numTransactions (tracer u)
            \<and> (\<forall>u'. trace (describer (tracer (on_describer (traceWrapping ''<-'' ''C inner'')
                                                 (snd (Tracer_exit st u')))))
                       = trace (describer (tracer u')) @ [''<-'' @ Call_format c]
                   \<and> creations (describer (tracer (on_describer (traceWrapping ''<-'' ''C inner'')
                                                 (snd (Tracer_exit st u')))))
                       = creations (describer (tracer u'))
                   \<and> numCalls (on_describer (traceWrapping ''<-'' ''C inner'')
                                 (snd (Tracer_exit st u'))) = numCalls u'
                   \<and> numSegments (on_describer (traceWrapping ''<-'' ''C inner'')
                                    (snd (Tracer_exit st u'))) = numSegments u'
                   \<and> context_obj (on_describer (traceWrapping ''<-'' ''C inner'')
                                     (snd (Tracer_exit st u')))
                       = (case stack (context_obj u') of
                            [] \<Rightarrow> \<lparr>state = None, stack = []\<rparr>
                          | prior # rest \<Rightarrow> \<lparr>state = prior, stack = rest\<rparr>)
                   \<and> (context_obj u' = context_obj u1 \<longrightarrow>
                        context_obj (on_describer (traceWrapping ''<-'' ''C inner'')
                                       (snd (Tracer_exit st u')))
                        = context_obj u))))"
    unfolding Let_def
    by (intro conjI allI impI;
        (rule callbackProxy_construct [OF active] | rule callbackProxy_invoke
         | (simp add: created_call_def new_State_def consistent_def Call_format_def
             addCall_fields enter_fields exit_fields wrapping_fields exit_context; fail)
         | simp add: created_call_def new_State_def wrapping_fields exit_fields enter_fields
             Context_exit_def))
qed

theorem callbackProxy_resumes_captured_state_witness:
  "state (context_obj active_world) = Some example_state
   \<and> consistent example_state
   \<and> (case callbackProxy marking_handler active_world of
         (Inl e, w') \<Rightarrow> False
       | (Inr p, w') \<Rightarrow>
           creations (describer (tracer w')) = [''+T'', ''+S'', ''+C'', ''+C'']
         \<and> trace (describer (tracer w')) = [''->T1S1C1'']
         \<and> context_obj w' = context_obj active_world
         \<and> state (context_obj (w'\<lparr>context_obj := \<lparr>state = Some other_state, stack = []\<rparr>\<rparr>))
             = Some other_state
         \<and> fst (p Undefined [] (w'\<lparr>context_obj := \<lparr>state = Some other_state, stack = []\<rparr>\<rparr>))
             = Inr (JNum 42)
         \<and> trace (describer (tracer (snd
              (p Undefined [] (w'\<lparr>context_obj := \<lparr>state = Some other_state, stack = []\<rparr>\<rparr>)))))
             = [''->T1S1C1'', ''->T1S1C2'', ''<-T1S1C2'']
         \<and> creations (describer (tracer (snd
              (p Undefined [] (w'\<lparr>context_obj := \<lparr>state = Some other_state, stack = []\<rparr>\<rparr>)))))
             = [''+T'', ''+S'', ''+C'', ''+C'']
         \<and> context_obj (snd
              (p Undefined [] (w'\<lparr>context_obj := \<lparr>state = Some other_state, stack = []\<rparr>\<rparr>)))
             = \<lparr>state = Some other_state, stack = []\<rparr>)"
proof -
  let ?h = "marking_handler :: (unit, unit) world func"
  have active: "state (context_obj active_world) = Some example_state"
    by (rule active_world_state)
  note built = callbackProxy_resumes_captured_state
    [of active_world example_state ?h, THEN mp, OF active, unfolded Let_def, THEN conjunct1]
  have "case callbackProxy ?h active_world of
         (Inl e, w') \<Rightarrow> False
       | (Inr p, w') \<Rightarrow>
           creations (describer (tracer w')) = [''+T'', ''+S'', ''+C'', ''+C'']
         \<and> trace (describer (tracer w')) = [''->T1S1C1'']
         \<and> context_obj w' = context_obj active_world
         \<and> state (context_obj (w'\<lparr>context_obj := \<lparr>state = Some other_state, stack = []\<rparr>\<rparr>))
             = Some other_state
         \<and> fst (p Undefined [] (w'\<lparr>context_obj := \<lparr>state = Some other_state, stack = []\<rparr>\<rparr>))
             = Inr (JNum 42)
         \<and> trace (describer (tracer (snd
              (p Undefined [] (w'\<lparr>context_obj := \<lparr>state = Some other_state, stack = []\<rparr>\<rparr>)))))
             = [''->T1S1C1'', ''->T1S1C2'', ''<-T1S1C2'']
         \<and> creations (describer (tracer (snd
              (p Undefined [] (w'\<lparr>context_obj := \<lparr>state = Some other_state, stack = []\<rparr>\<rparr>)))))
             = [''+T'', ''+S'', ''+C'', ''+C'']
         \<and> context_obj (snd
              (p Undefined [] (w'\<lparr>context_obj := \<lparr>state = Some other_state, stack = []\<rparr>\<rparr>)))
             = \<lparr>state = Some other_state, stack = []\<rparr>"
    unfolding built
    by (simp add: callbackProxy_invoke marking_handler_apply wrapping_fields exit_fields
        enter_fields addCall_fields active_world_fields example_state_fields created_call_def
        new_State_def Call_format_def example_segment_def example_transaction_def
        format_d_1 format_d_2 Context_exit_def)
  with active example_state_consistent show ?thesis
    by (simp only: simp_thms)
qed

section \<open>A handler that raises\<close>

text \<open>
  C4. In each of the three proxies, once the State has been entered (it is the
  active State and its \<open>->\<close> token is in the call-trace log), if the handler
  raises \<open>e\<close> and leaves the world \<open>u'\<close>, then the invocation of the proxy raises
  the same \<open>e\<close> and leaves exactly \<open>u'\<close>: the matching exit has not run (no \<open><-\<close>
  token is appended, the Context is not restored) and neither has the closing
  token of the inner wrapper.
\<close>

theorem handler_fault_skips_exit:
  "(createTransaction ag (on_describer (traceWrapping ''->'' ''T inner'') u) = (Inr v, u1)
      \<and> truthy v
      \<and> getTrace_root ag v (snd (Tracer_addTransaction v u1)) = (Inr root, u3)
      \<and> truthy root \<longrightarrow>
     (let t = created_transaction v u1;
          s = created_segment t root u3;
          u4 = snd (Tracer_addSegment t root u3);
          c = created_call s (JFun (fn_id h)) u4;
          u5 = snd (Tracer_addCall s (JFun (fn_id h)) u4);
          st = new_State t s c True;
          u6 = snd (Tracer_enter st u5)
      in state (context_obj u6) = Some st
       \<and> trace (describer (tracer u6)) = trace (describer (tracer u5)) @ [''->'' @ Call_format c]
       \<and> (\<forall>e u'. fn_apply h this args u6 = (Inl e, u') \<longrightarrow>
            wrapExecution ''T inner'' (transactionProxy_inner ag h) this args u = (Inl e, u'))))
   \<and> (state (context_obj u) = Some st0 \<and> truthy (s_value (segment st0)) \<longrightarrow>
     (let u0 = on_describer (traceWrapping ''->'' ''S inner'') u;
          t = transaction st0;
          s = created_segment t (s_value (segment st0)) u0;
          u4 = snd (Tracer_addSegment t (s_value (segment st0)) u0);
          c = created_call s (JFun (fn_id h)) u4;
          u5 = snd (Tracer_addCall s (JFun (fn_id h)) u4);
          st = new_State t s c True;
          u6 = snd (Tracer_enter st u5)
      in state (context_obj u6) = Some st
       \<and> trace (describer (tracer u6)) = trace (describer (tracer u5)) @ [''->'' @ Call_format c]
       \<and> (\<forall>e u'. fn_apply h this args u6 = (Inl e, u') \<longrightarrow>
            wrapExecution ''S inner'' (segmentProxy_inner h) this args u = (Inl e, u'))))
   \<and> (state (context_obj w) = Some st0 \<longrightarrow>
     (let c = created_call (c_segment (call st0)) (JFun (fn_id h))
                (on_describer (traceWrapping ''->'' ''C outer'') w);
          st = new_State (transaction st0) (segment st0) c True;
          p = wrapExecution ''C inner'' (callbackProxy_inner h st0 c)
      in fst (callbackProxy h w) = Inr p
       \<and> (\<forall>u this args.
            (let u0 = on_describer (traceWrapping ''->'' ''C inner'') u;
                 u6 = snd (Tracer_enter st u0)
             in state (context_obj u6) = Some st
              \<and> trace (describer (tracer u6)) = trace (describer (tracer u0)) @ [''->'' @ Call_format c]
              \<and> (\<forall>e u'. fn_apply h this args u6 = (Inl e, u') \<longrightarrow> p this args u = (Inl e, u'))))))"
proof (intro conjI impI)
  assume a: "createTransaction ag (on_describer (traceWrapping ''->'' ''T inner'') u) = (Inr v, u1)
      \<and> truthy v
      \<and> getTrace_root ag v (snd (Tracer_addTransaction v u1)) = (Inr root, u3)
      \<and> truthy root"
  then have created: "createTransaction ag (on_describer (traceWrapping ''->'' ''T inner'') u) = (Inr v, u1)"
    and v: "truthy v"
    and rooted: "getTrace_root ag v (snd (Tracer_addTransaction v u1)) = (Inr root, u3)"
    and root: "truthy root"
    by simp_all
  note run = transactionProxy_invoke [OF created v rooted root, of h this args, unfolded Let_def]
  show "let t = created_transaction v u1;
          s = created_segment t root u3;
          u4 = snd (Tracer_addSegment t root u3);
          c = created_call s (JFun (fn_id h)) u4;
          u5 = snd (Tracer_addCall s (JFun (fn_id h)) u4);
          st = new_State t s c True;
          u6 = snd (Tracer_enter st u5)
      in state (context_obj u6) = Some st
       \<and> trace (describer (tracer u6)) = trace (describer (tracer u5)) @ [''->'' @ Call_format c]
       \<and> (\<forall>e u'. fn_apply h this args u6 = (Inl e, u') \<longrightarrow>
            wrapExecution ''T inner'' (transactionProxy_inner ag h) this args u = (Inl e, u'))"
    unfolding Let_def
    by (intro conjI allI impI; ((simp add: enter_fields new_State_def; fail) | simp add: run))
next
  assume a: "state (context_obj u) = Some st0 \<and> truthy (s_value (segment st0))"
  then have active: "state (context_obj u) = Some st0" and v: "truthy (s_value (segment st0))"
    by simp_all
  note run = segmentProxy_invoke [OF active v, of h this args, unfolded Let_def]
  show "let u0 = on_describer (traceWrapping ''->'' ''S inner'') u;
          t = transaction st0;
          s = created_segment t (s_value (segment st0)) u0;
          u4 = snd (Tracer_addSegment t (s_value (segment st0)) u0);
          c = created_call s (JFun (fn_id h)) u4;
          u5 = snd (Tracer_addCall s (JFun (fn_id h)) u4);
          st = new_State t s c True;
          u6 = snd (Tracer_enter st u5)
      in state (context_obj u6) = Some st
       \<and> trace (describer (tracer u6)) = trace (describer (tracer u5)) @ [''->'' @ Call_format c]
       \<and> (\<forall>e u'. fn_apply h this args u6 = (Inl e, u') \<longrightarrow>
            wrapExecution ''S inner'' (segmentProxy_inner h) this args u = (Inl e, u'))"
    unfolding Let_def
    by (intro conjI allI impI; ((simp add: enter_fields new_State_def; fail) | simp add: run))
next
  assume active: "state (context_obj w) = Some st0"
  show "let c = created_call (c_segment (call st0)) (JFun (fn_id h))
                (on_describer (traceWrapping ''->'' ''C outer'') w);
          st = new_State (transaction st0) (segment st0) c True;
          p = wrapExecution ''C inner'' (callbackProxy_inner h st0 c)
      in fst (callbackProxy h w) = Inr p
       \<and> (\<forall>u this args.
            (let u0 = on_describer (traceWrapping ''->'' ''C inner'') u;
                 u6 = snd (Tracer_enter st u0)
             in state (context_obj u6) = Some st
              \<and> trace (describer (tracer u6)) = trace (describer (tracer u0)) @ [''->'' @ Call_format c]
              \<and> (\<forall>e u'. fn_apply h this args u6 = (Inl e, u') \<longrightarrow> p this args u = (Inl e, u'))))"
    unfolding Let_def
    by (intro conjI allI impI;
        ((simp add: callbackProxy_construct [OF active]; fail)
         | (simp add: enter_fields new_State_def; fail)
         | simp add: callbackProxy_invoke))
qed

theorem handler_fault_skips_exit_witness:
  "truthy (JObj 0) \<and> truthy (JObj 1)
   \<and> fst (wrapExecution ''T inner''
            (transactionProxy_inner (const_agent (JObj 0) (JObj 1)) throwing_handler)
            Undefined [] (fresh_world () ())) = Inl (Thrown (JStr ''boom''))
   \<and> trace (describer (tracer (snd (wrapExecution ''T inner''
            (transactionProxy_inner (const_agent (JObj 0) (JObj 1)) throwing_handler)
            Undefined [] (fresh_world () ()))))) = [''->T1S1C1'']
   \<and> state (context_obj active_world) = Some example_state
   \<and> truthy (s_value (segment example_state))
   \<and> fst (wrapExecution ''S inner'' (segmentProxy_inner throwing_handler) Undefined [] active_world)
       = Inl (Thrown (JStr ''boom''))
   \<and> trace (describer (tracer (snd (wrapExecution ''S inner'' (segmentProxy_inner throwing_handler)
            Undefined [] active_world)))) = [''->T1S1C1'', ''->T1S2C1'']
   \<and> (case callbackProxy throwing_handler active_world of
         (Inl e, w') \<Rightarrow> False
       | (Inr p, w') \<Rightarrow>
           fst (p Undefined [] w') = Inl (Thrown (JStr ''boom''))
         \<and> trace (describer (tracer (snd (p Undefined [] w')))) = [''->T1S1C1'', ''->T1S1C2''])"
proof -
  let ?ag = "const_agent (JObj 0) (JObj 1) :: (unit, unit) world Agent"
  let ?h = "throwing_handler :: (unit, unit) world func"
  let ?fw = "fresh_world () ()"
  let ?inner = "on_describer (traceWrapping ''->'' ''T inner'') ?fw"
  let ?added = "snd (Tracer_addTransaction (JObj 0) ?inner)"
  have hypT: "createTransaction ?ag ?inner = (Inr (JObj 0), ?inner) \<and> truthy (JObj 0)
      \<and> getTrace_root ?ag (JObj 0) (snd (Tracer_addTransaction (JObj 0) ?inner)) = (Inr (JObj 1), ?added)
      \<and> truthy (JObj 1)"
    by (simp add: const_agent_simps)
  have hypS: "state (context_obj active_world) = Some example_state
      \<and> truthy (s_value (segment example_state))"
    by (simp add: active_world_state example_state_fields)
  note T = handler_fault_skips_exit
    [where ag = ?ag and u = ?fw and v = "JObj 0" and ?u1.0 = ?inner and root = "JObj 1" and ?u3.0 = ?added
       and h = ?h and this = Undefined and args = "[]" and ?st0.0 = example_state
       and w = active_world,
     THEN conjunct1, THEN mp, OF hypT, unfolded Let_def, THEN conjunct2, THEN conjunct2,
     THEN spec, THEN spec, THEN mp, OF throwing_handler_apply(1)]
  note S = handler_fault_skips_exit
    [where ag = ?ag and u = active_world and v = "JObj 0" and ?u1.0 = ?inner and root = "JObj 1"
       and ?u3.0 = ?added and h = ?h and this = Undefined and args = "[]" and ?st0.0 = example_state
       and w = active_world,
     THEN conjunct2, THEN conjunct1, THEN mp, OF hypS, unfolded Let_def, THEN conjunct2,
     THEN conjunct2, THEN spec, THEN spec, THEN mp, OF throwing_handler_apply(1)]
  note C = handler_fault_skips_exit
    [where ag = ?ag and u = active_world and v = "JObj 0" and ?u1.0 = ?inner and root = "JObj 1"
       and ?u3.0 = ?added and h = ?h and this = Undefined and args = "[]" and ?st0.0 = example_state
       and w = active_world,
     THEN conjunct2, THEN conjunct2, THEN mp, OF active_world_state, unfolded Let_def]
  note built = callbackProxy_construct [OF active_world_state, of ?h]
  note raised = C [THEN conjunct2, THEN spec, THEN spec, THEN spec, THEN conjunct2, THEN conjunct2,
     THEN spec, THEN spec, THEN mp, OF throwing_handler_apply(1)]
  have 1: "fst (wrapExecution ''T inner'' (transactionProxy_inner ?ag ?h) Undefined [] ?fw)
      = Inl (Thrown (JStr ''boom''))"
    unfolding T by simp
  have 2: "trace (describer (tracer (snd (wrapExecution ''T inner''
            (transactionProxy_inner ?ag ?h) Undefined [] ?fw)))) = [''->T1S1C1'']"
    unfolding T
    by (simp add: enter_fields addCall_fields addSegment_fields addTransaction_fields
        wrapping_fields fresh_world_fields created_call_def created_segment_def
        created_transaction_def new_State_def Call_format_def format_d_1)
  have 3: "fst (wrapExecution ''S inner'' (segmentProxy_inner ?h) Undefined [] active_world)
       = Inl (Thrown (JStr ''boom''))"
    unfolding S by simp
  have 4: "trace (describer (tracer (snd (wrapExecution ''S inner'' (segmentProxy_inner ?h)
            Undefined [] active_world)))) = [''->T1S1C1'', ''->T1S2C1'']"
    unfolding S
    by (simp add: enter_fields addCall_fields addSegment_fields wrapping_fields
        active_world_fields example_state_fields created_call_def created_segment_def
        new_State_def Call_format_def example_transaction_def format_d_1 format_d_2)
  have 5: "case callbackProxy ?h active_world of
         (Inl e, w') \<Rightarrow> False
       | (Inr p, w') \<Rightarrow>
           fst (p Undefined [] w') = Inl (Thrown (JStr ''boom''))
         \<and> trace (describer (tracer (snd (p Undefined [] w')))) = [''->T1S1C1'', ''->T1S1C2'']"
    unfolding built prod.case sum.case raised fst_conv snd_conv
    by (simp add: enter_fields addCall_fields wrapping_fields
        active_world_fields example_state_fields created_call_def
        new_State_def Call_format_def example_segment_def example_transaction_def
        format_d_1 format_d_2)
  from hypT hypS 1 2 3 4 5 show ?thesis
    by (simp only: simp_thms)
qed

section \<open>The States that are entered\<close>

lemma created_chain_consistent:
  "consistent (new_State t (created_segment t v w) (created_call (created_segment t v w) hv w') True)"
  by (simp add: consistent_def new_State_def created_segment_def created_call_def)

lemma callback_state_consistent_iff:
  "consistent (new_State (transaction st0) (segment st0)
                 (created_call (c_segment (call st0)) hv w) True) \<longleftrightarrow> consistent st0"
  by (simp add: consistent_def new_State_def created_call_def)

lemma chain_token:
  "Call_format c =
     ''T'' @ format_d (t_id (s_transaction (c_segment c))) @ ''S'' @ format_d (s_id (c_segment c))
     @ ''C'' @ format_d (c_id c)"
  by (simp add: Call_format_def)

lemma context_consistent_enter:
  "context_consistent u \<Longrightarrow> consistent st \<Longrightarrow> context_consistent (snd (Tracer_enter st u))"
  by (simp add: context_consistent_def consistent_slot_def enter_fields)

lemma context_consistent_exit:
  "context_consistent u \<Longrightarrow> context_consistent (snd (Tracer_exit st u))"
  by (auto simp: context_consistent_def consistent_slot_def exit_fields Context_exit_def
      split: list.splits option.splits)

lemma context_consistent_fresh: "context_consistent (fresh_world a c)"
  by (simp add: context_consistent_def consistent_slot_def fresh_world_fields)

lemma context_consistent_active: "context_consistent active_world"
  by (simp add: context_consistent_def consistent_slot_def active_world_fields
      example_state_consistent)

text \<open>
  C8, as the claim states it, fails for \<^verbatim>\<open>callbackProxy\<close>. In the crossed world
  the active State is that of transaction 1, segment 2 and call 1 of segment 1.
  \<^verbatim>\<open>callbackProxy\<close> constructed there creates call 2 of segment 1, and an
  invocation of the returned callable passes to \<^verbatim>\<open>enter\<close> the State of
  transaction 1, segment 2 and that call, whose call was not created under its
  segment. The handler raises here, so that the State that was entered is still
  the active one when the invocation ends.
\<close>

theorem entered_state_consistent_counterexample:
  "state (context_obj crossed_world) = Some crossed_state
   \<and> fst (callbackProxy throwing_handler crossed_world)
       = Inr (wrapExecution ''C inner''
                (callbackProxy_inner throwing_handler crossed_state
                   \<lparr>c_id = 2, c_segment = example_segment, c_value = JFun 1\<rparr>))
   \<and> fst (wrapExecution ''C inner''
            (callbackProxy_inner throwing_handler crossed_state
               \<lparr>c_id = 2, c_segment = example_segment, c_value = JFun 1\<rparr>)
            Undefined [] (snd (callbackProxy throwing_handler crossed_world)))
       = Inl (Thrown (JStr ''boom''))
   \<and> context_obj (snd (wrapExecution ''C inner''
            (callbackProxy_inner throwing_handler crossed_state
               \<lparr>c_id = 2, c_segment = example_segment, c_value = JFun 1\<rparr>)
            Undefined [] (snd (callbackProxy throwing_handler crossed_world))))
       = \<lparr>state = Some \<lparr>transaction = example_transaction, segment = second_segment,
                          call = \<lparr>c_id = 2, c_segment = example_segment, c_value = JFun 1\<rparr>,
                          full = True\<rparr>,
          stack = [Some crossed_state, None]\<rparr>
   \<and> example_segment \<noteq> second_segment
   \<and> \<not> consistent \<lparr>transaction = example_transaction, segment = second_segment,
                     call = \<lparr>c_id = 2, c_segment = example_segment, c_value = JFun 1\<rparr>,
                     full = True\<rparr>
   \<and> trace (describer (tracer (snd (wrapExecution ''C inner''
            (callbackProxy_inner throwing_handler crossed_state
               \<lparr>c_id = 2, c_segment = example_segment, c_value = JFun 1\<rparr>)
            Undefined [] (snd (callbackProxy throwing_handler crossed_world))))))
       = [''->T1S1C1'', ''->T1S1C2'']"
proof -
  let ?h = "throwing_handler :: (unit, unit) world func"
  have active: "state (context_obj crossed_world) = Some crossed_state"
    by (simp add: crossed_world_fields)
  note built = callbackProxy_construct [OF active, of ?h]
  note fields = throwing_handler_apply wrapping_fields exit_fields enter_fields addCall_fields
    crossed_world_fields crossed_state_fields example_state_fields created_call_def
    new_State_def Call_format_def example_segment_def second_segment_def
    example_transaction_def format_d_1 format_d_2 consistent_def numeral_2_eq_2
  show ?thesis
    unfolding built
    by (simp add: callbackProxy_invoke fields)
qed

text \<open>
  C8, amended. Every State that \<^verbatim>\<open>transactionProxy\<close> and \<^verbatim>\<open>segmentProxy\<close> pass to
  \<^verbatim>\<open>enter\<close> names an ancestor chain: its call was created under its segment and
  its segment under its transaction, so that the token of its call carries the
  ids of its own transaction, segment and call. \<^verbatim>\<open>transactionProxy\<close> enters the
  State of the Transaction, Segment and Call it has just created, one under the
  other; \<^verbatim>\<open>segmentProxy\<close>, with a State active, enters the State of the active
  transaction, a Segment created under it and a Call created under that Segment,
  and with no State active enters nothing. \<^verbatim>\<open>callbackProxy\<close>, with a State
  active, enters the transaction and segment of the captured State with a Call
  created under the segment of the captured call: that State is consistent
  exactly when the captured State is, and with no State active nothing is
  entered. So the States the proxies enter are all consistent as long as the
  Context holds consistent States only, which it does when nothing but the
  proxies enters States: it starts with none, and \<^verbatim>\<open>enter\<close> of a consistent State
  and \<^verbatim>\<open>exit\<close> keep it so. \<^verbatim>\<open>enter\<close> makes its State the active one above the
  one that was active and logs the token of the State's call; \<^verbatim>\<open>exit\<close> drops the
  active State. The token of a call always names the chain of the call itself
  (its segment and that segment's transaction), which is the chain of the State
  when the State is consistent.
\<close>

theorem entered_states_are_consistent:
  "(createTransaction ag u = (Inr v, u1) \<and> truthy v
      \<and> getTrace_root ag v (snd (Tracer_addTransaction v u1)) = (Inr root, u3) \<and> truthy root \<longrightarrow>
     (let t = created_transaction v u1;
          s = created_segment t root u3;
          u4 = snd (Tracer_addSegment t root u3);
          c = created_call s (JFun (fn_id h)) u4;
          u5 = snd (Tracer_addCall s (JFun (fn_id h)) u4);
          st = new_State t s c True
      in transactionProxy_inner ag h this args u = in_state st (fn_apply h this args) u5
       \<and> consistent st
       \<and> Call_format (call st) =
           ''T'' @ format_d (t_id (transaction st)) @ ''S'' @ format_d (s_id (segment st))
           @ ''C'' @ format_d (c_id (call st))))
   \<and> (state (context_obj u) = Some st0 \<and> truthy (s_value (segment st0)) \<longrightarrow>
     (let t = transaction st0;
          s = created_segment t (s_value (segment st0)) u;
          u4 = snd (Tracer_addSegment t (s_value (segment st0)) u);
          c = created_call s (JFun (fn_id h)) u4;
          u5 = snd (Tracer_addCall s (JFun (fn_id h)) u4);
          st = new_State t s c True
      in segmentProxy_inner h this args u = in_state st (fn_apply h this args) u5
       \<and> consistent st
       \<and> Call_format (call st) =
           ''T'' @ format_d (t_id (transaction st)) @ ''S'' @ format_d (s_id (segment st))
           @ ''C'' @ format_d (c_id (call st))))
   \<and> (state (context_obj u) = None \<longrightarrow>
        segmentProxy_inner h this args u = fn_apply h this args u)
   \<and> (state (context_obj w) = Some st0 \<longrightarrow>
     (let c = created_call (c_segment (call st0)) (JFun (fn_id h))
                (on_describer (traceWrapping ''->'' ''C outer'') w);
          st = new_State (transaction st0) (segment st0) c True
      in fst (callbackProxy h w) = Inr (wrapExecution ''C inner'' (callbackProxy_inner h st0 c))
       \<and> (\<forall>this args. callbackProxy_inner h st0 c this args = in_state st (fn_apply h this args))
       \<and> (consistent st \<longleftrightarrow> consistent st0)
       \<and> (context_consistent w \<longrightarrow> consistent st)
       \<and> (consistent st0 \<longrightarrow>
            Call_format (call st) =
              ''T'' @ format_d (t_id (transaction st)) @ ''S'' @ format_d (s_id (segment st))
              @ ''C'' @ format_d (c_id (call st)))))
   \<and> (state (context_obj w) = None \<longrightarrow> callbackProxy h w = (Inr (fn_apply h), w))
   \<and> in_state st body u =
       (case body (snd (Tracer_enter st u)) of
          (Inl e, u') \<Rightarrow> (Inl e, u')
        | (Inr r, u') \<Rightarrow> (Inr r, snd (Tracer_exit st u')))
   \<and> context_obj (snd (Tracer_enter st u))
       = \<lparr>state = Some st, stack = state (context_obj u) # stack (context_obj u)\<rparr>
   \<and> trace (describer (tracer (snd (Tracer_enter st u))))
       = trace (describer (tracer u)) @ [''->'' @ Call_format (call st)]
   \<and> Call_format (call st) =
       ''T'' @ format_d (t_id (s_transaction (c_segment (call st))))
       @ ''S'' @ format_d (s_id (c_segment (call st))) @ ''C'' @ format_d (c_id (call st))
   \<and> context_obj (snd (Tracer_exit st u))
       = (case stack (context_obj u) of
            [] \<Rightarrow> \<lparr>state = None, stack = []\<rparr>
          | prior # rest \<Rightarrow> \<lparr>state = prior, stack = rest\<rparr>)
   \<and> context_consistent (fresh_world a c)
   \<and> (context_consistent u \<and> consistent st \<longrightarrow> context_consistent (snd (Tracer_enter st u)))
   \<and> (context_consistent u \<longrightarrow> context_consistent (snd (Tracer_exit st u)))"
proof (intro conjI impI)
  assume "createTransaction ag u = (Inr v, u1) \<and> truthy v
      \<and> getTrace_root ag v (snd (Tracer_addTransaction v u1)) = (Inr root, u3) \<and> truthy root"
  then have created: "createTransaction ag u = (Inr v, u1)"
    and v: "truthy v"
    and rooted: "getTrace_root ag v (snd (Tracer_addTransaction v u1)) = (Inr root, u3)"
    and root: "truthy root"
    by simp_all
  show "let t = created_transaction v u1;
          s = created_segment t root u3;
          u4 = snd (Tracer_addSegment t root u3);
          c = created_call s (JFun (fn_id h)) u4;
          u5 = snd (Tracer_addCall s (JFun (fn_id h)) u4);
          st = new_State t s c True
      in transactionProxy_inner ag h this args u = in_state st (fn_apply h this args) u5
       \<and> consistent st
       \<and> Call_format (call st) =
           ''T'' @ format_d (t_id (transaction st)) @ ''S'' @ format_d (s_id (segment st))
           @ ''C'' @ format_d (c_id (call st))"
    unfolding Let_def
    by (intro conjI, rule transactionProxy_inner_run [OF created v rooted root],
        rule created_chain_consistent, rule consistent_token, rule created_chain_consistent)
next
  assume "state (context_obj u) = Some st0 \<and> truthy (s_value (segment st0))"
  then have active: "state (context_obj u) = Some st0" and v: "truthy (s_value (segment st0))"
    by simp_all
  show "let t = transaction st0;
          s = created_segment t (s_value (segment st0)) u;
          u4 = snd (Tracer_addSegment t (s_value (segment st0)) u);
          c = created_call s (JFun (fn_id h)) u4;
          u5 = snd (Tracer_addCall s (JFun (fn_id h)) u4);
          st = new_State t s c True
      in segmentProxy_inner h this args u = in_state st (fn_apply h this args) u5
       \<and> consistent st
       \<and> Call_format (call st) =
           ''T'' @ format_d (t_id (transaction st)) @ ''S'' @ format_d (s_id (segment st))
           @ ''C'' @ format_d (c_id (call st))"
    unfolding Let_def
    by (intro conjI, rule segmentProxy_inner_run [OF active v],
        rule created_chain_consistent, rule consistent_token, rule created_chain_consistent)
next
  assume "state (context_obj u) = None"
  then show "segmentProxy_inner h this args u = fn_apply h this args u"
    by (simp add: segmentProxy_inner_def)
next
  assume active: "state (context_obj w) = Some st0"
  have held: "context_consistent w \<Longrightarrow> consistent st0"
    using active by (auto simp: context_consistent_def consistent_slot_def)
  show "let c = created_call (c_segment (call st0)) (JFun (fn_id h))
                (on_describer (traceWrapping ''->'' ''C outer'') w);
          st = new_State (transaction st0) (segment st0) c True
      in fst (callbackProxy h w) = Inr (wrapExecution ''C inner'' (callbackProxy_inner h st0 c))
       \<and> (\<forall>this args. callbackProxy_inner h st0 c this args = in_state st (fn_apply h this args))
       \<and> (consistent st \<longleftrightarrow> consistent st0)
       \<and> (context_consistent w \<longrightarrow> consistent st)
       \<and> (consistent st0 \<longrightarrow>
            Call_format (call st) =
              ''T'' @ format_d (t_id (transaction st)) @ ''S'' @ format_d (s_id (segment st))
              @ ''C'' @ format_d (c_id (call st)))"
    unfolding Let_def
  proof (intro conjI allI impI)
    show "fst (callbackProxy h w) =
        Inr (wrapExecution ''C inner'' (callbackProxy_inner h st0
               (created_call (c_segment (call st0)) (JFun (fn_id h))
                  (on_describer (traceWrapping ''->'' ''C outer'') w))))"
      by (simp add: callbackProxy_construct [OF active])
  next
    fix this args
    show "callbackProxy_inner h st0
            (created_call (c_segment (call st0)) (JFun (fn_id h))
               (on_describer (traceWrapping ''->'' ''C outer'') w)) this args =
          in_state (new_State (transaction st0) (segment st0)
            (created_call (c_segment (call st0)) (JFun (fn_id h))
               (on_describer (traceWrapping ''->'' ''C outer'') w)) True) (fn_apply h this args)"
      by (rule callbackProxy_inner_in_state)
  next
    show "consistent (new_State (transaction st0) (segment st0)
            (created_call (c_segment (call st0)) (JFun (fn_id h))
               (on_describer (traceWrapping ''->'' ''C outer'') w)) True) = consistent st0"
      by (rule callback_state_consistent_iff)
  next
    assume "context_consistent w"
    then show "consistent (new_State (transaction st0) (segment st0)
            (created_call (c_segment (call st0)) (JFun (fn_id h))
               (on_describer (traceWrapping ''->'' ''C outer'') w)) True)"
      by (simp add: callback_state_consistent_iff held)
  next
    assume "consistent st0"
    then show "Call_format (call (new_State (transaction st0) (segment st0)
            (created_call (c_segment (call st0)) (JFun (fn_id h))
               (on_describer (traceWrapping ''->'' ''C outer'') w)) True)) =
       ''T'' @ format_d (t_id (transaction (new_State (transaction st0) (segment st0)
            (created_call (c_segment (call st0)) (JFun (fn_id h))
               (on_describer (traceWrapping ''->'' ''C outer'') w)) True)))
       @ ''S'' @ format_d (s_id (segment (new_State (transaction st0) (segment st0)
            (created_call (c_segment (call st0)) (JFun (fn_id h))
               (on_describer (traceWrapping ''->'' ''C outer'') w)) True)))
       @ ''C'' @ format_d (c_id (call (new_State (transaction st0) (segment st0)
            (created_call (c_segment (call st0)) (JFun (fn_id h))
               (on_describer (traceWrapping ''->'' ''C outer'') w)) True)))"
      by (intro consistent_token) (simp add: callback_state_consistent_iff)
  qed
next
  assume "state (context_obj w) = None"
  then show "callbackProxy h w = (Inr (fn_apply h), w)"
    by (rule callbackProxy_none)
next
  show "in_state st body u =
       (case body (snd (Tracer_enter st u)) of
          (Inl e, u') \<Rightarrow> (Inl e, u')
        | (Inr r, u') \<Rightarrow> (Inr r, snd (Tracer_exit st u')))"
    by (rule in_state_run)
next
  show "context_obj (snd (Tracer_enter st u))
       = \<lparr>state = Some st, stack = state (context_obj u) # stack (context_obj u)\<rparr>"
    by (rule enter_fields)
next
  show "trace (describer (tracer (snd (Tracer_enter st u))))
       = trace (describer (tracer u)) @ [''->'' @ Call_format (call st)]"
    by (rule enter_fields)
next
  show "Call_format (call st) =
       ''T'' @ format_d (t_id (s_transaction (c_segment (call st))))
       @ ''S'' @ format_d (s_id (c_segment (call st))) @ ''C'' @ format_d (c_id (call st))"
    by (rule chain_token)
next
  show "context_obj (snd (Tracer_exit st u))
       = (case stack (context_obj u) of
            [] \<Rightarrow> \<lparr>state = None, stack = []\<rparr>
          | prior # rest \<Rightarrow> \<lparr>state = prior, stack = rest\<rparr>)"
    by (rule exit_context)
next
  show "context_consistent (fresh_world a c)"
    by (rule context_consistent_fresh)
next
  assume "context_consistent u \<and> consistent st"
  then show "context_consistent (snd (Tracer_enter st u))"
    by (simp add: context_consistent_enter)
next
  assume "context_consistent u"
  then show "context_consistent (snd (Tracer_exit st u))"
    by (rule context_consistent_exit)
qed


theorem entered_states_are_consistent_witness:
  "createTransaction (const_agent (JObj 0) (JObj 1)) (fresh_world () ())
     = (Inr (JObj 0), fresh_world () ())
   \<and> truthy (JObj 0) \<and> truthy (JObj 1)
   \<and> transactionProxy_inner (const_agent (JObj 0) (JObj 1)) marking_handler Undefined []
        (fresh_world () ())
      = in_state example_state (fn_apply marking_handler Undefined [])
          (snd (Tracer_addCall example_segment (JFun 0)
             (snd (Tracer_addSegment example_transaction (JObj 1)
                (snd (Tracer_addTransaction (JObj 0) (fresh_world () ())))))))
   \<and> consistent example_state
   \<and> Call_format (call example_state) = ''T1S1C1''
   \<and> state (context_obj active_world) = Some example_state
   \<and> truthy (s_value (segment example_state))
   \<and> context_consistent active_world
   \<and> consistent (new_State example_transaction
        (created_segment example_transaction (JObj 1) active_world)
        (created_call (created_segment example_transaction (JObj 1) active_world) (JFun 0)
           (snd (Tracer_addSegment example_transaction (JObj 1) active_world)))
        True)
   \<and> consistent (new_State example_transaction example_segment
        (created_call example_segment (JFun 0)
           (on_describer (traceWrapping ''->'' ''C outer'') active_world))
        True)
   \<and> state (context_obj crossed_world) = Some crossed_state
   \<and> \<not> consistent crossed_state
   \<and> \<not> consistent (new_State example_transaction second_segment
        (created_call example_segment (JFun 0)
           (on_describer (traceWrapping ''->'' ''C outer'') crossed_world))
        True)
   \<and> context_obj (snd (Tracer_enter example_state (fresh_world () ())))
       = \<lparr>state = Some example_state, stack = [None]\<rparr>
   \<and> trace (describer (tracer (snd (Tracer_enter example_state (fresh_world () ())))))
       = [''->T1S1C1'']
   \<and> context_obj (snd (Tracer_exit example_state active_world)) = \<lparr>state = None, stack = []\<rparr>"
proof -
  let ?ag = "const_agent (JObj 0) (JObj 1) :: (unit, unit) world Agent"
  let ?h = "marking_handler :: (unit, unit) world func"
  let ?fw = "fresh_world () () :: (unit, unit) world"
  let ?added = "snd (Tracer_addTransaction (JObj 0) ?fw)"
  have hypT: "createTransaction ?ag ?fw = (Inr (JObj 0), ?fw) \<and> truthy (JObj 0)
      \<and> getTrace_root ?ag (JObj 0) (snd (Tracer_addTransaction (JObj 0) ?fw)) = (Inr (JObj 1), ?added)
      \<and> truthy (JObj 1)"
    by (simp add: const_agent_simps)
  have hypS: "state (context_obj active_world) = Some example_state
      \<and> truthy (s_value (segment example_state))"
    by (simp add: active_world_state example_state_fields)
  have hypC: "state (context_obj active_world) = Some example_state"
    by (rule active_world_state)
  have hypX: "state (context_obj crossed_world) = Some crossed_state"
    by (simp add: crossed_world_fields)
  have t: "created_transaction (JObj 0) ?fw = example_transaction"
    by (simp add: created_transaction_def example_transaction_def fresh_world_fields)
  have s: "created_segment example_transaction (JObj 1) ?added = example_segment"
    by (simp add: created_segment_def example_segment_def example_transaction_def
        addTransaction_fields fresh_world_fields)
  have c: "created_call example_segment (JFun 0)
             (snd (Tracer_addSegment example_transaction (JObj 1) ?added)) = example_call"
    by (simp add: created_call_def example_call_def example_segment_def
        addSegment_fields addTransaction_fields fresh_world_fields)
  note T = entered_states_are_consistent
    [where ag = ?ag and u = ?fw and v = "JObj 0" and ?u1.0 = ?fw and root = "JObj 1"
       and ?u3.0 = ?added and h = ?h and this = Undefined and args = "[]"
       and ?st0.0 = example_state and w = active_world,
     THEN conjunct1, THEN mp, OF hypT, unfolded Let_def marking_handler_apply(2) t s c,
     folded example_state_def]
  note S = entered_states_are_consistent
    [where ag = ?ag and u = active_world and v = "JObj 0" and ?u1.0 = ?fw and root = "JObj 1"
       and ?u3.0 = ?added and h = ?h and this = Undefined and args = "[]"
       and ?st0.0 = example_state and w = active_world,
     THEN conjunct2, THEN conjunct1, THEN mp, OF hypS,
     unfolded Let_def marking_handler_apply(2) example_state_fields, THEN conjunct2, THEN conjunct1]
  note C = entered_states_are_consistent
    [where ag = ?ag and u = active_world and v = "JObj 0" and ?u1.0 = ?fw and root = "JObj 1"
       and ?u3.0 = ?added and h = ?h and this = Undefined and args = "[]"
       and ?st0.0 = example_state and w = active_world,
     THEN conjunct2, THEN conjunct2, THEN conjunct2, THEN conjunct1, THEN mp, OF hypC,
     unfolded Let_def marking_handler_apply(2) example_state_fields,
     THEN conjunct2, THEN conjunct2, THEN conjunct2, THEN conjunct1, THEN mp,
     OF context_consistent_active]
  note X = entered_states_are_consistent
    [where ag = ?ag and u = active_world and v = "JObj 0" and ?u1.0 = ?fw and root = "JObj 1"
       and ?u3.0 = ?added and h = ?h and this = Undefined and args = "[]"
       and ?st0.0 = crossed_state and w = crossed_world,
     THEN conjunct2, THEN conjunct2, THEN conjunct2, THEN conjunct1, THEN mp, OF hypX,
     unfolded Let_def marking_handler_apply(2) crossed_state_fields example_state_fields,
     THEN conjunct2, THEN conjunct2, THEN conjunct1]
  note E = entered_states_are_consistent
    [where ag = ?ag and u = ?fw and v = "JObj 0" and ?u1.0 = ?fw and root = "JObj 1"
       and ?u3.0 = ?added and h = ?h and this = Undefined and args = "[]"
       and ?st0.0 = example_state and w = active_world and st = example_state,
     THEN conjunct2, THEN conjunct2, THEN conjunct2, THEN conjunct2, THEN conjunct2,
     THEN conjunct2]
  note L = entered_states_are_consistent
    [where ag = ?ag and u = active_world and v = "JObj 0" and ?u1.0 = ?fw and root = "JObj 1"
       and ?u3.0 = ?added and h = ?h and this = Undefined and args = "[]"
       and ?st0.0 = example_state and w = active_world and st = example_state,
     THEN conjunct2, THEN conjunct2, THEN conjunct2, THEN conjunct2, THEN conjunct2,
     THEN conjunct2, THEN conjunct2, THEN conjunct2, THEN conjunct2, THEN conjunct1]
  have tok: "Call_format (call example_state) = ''T1S1C1''"
    using T [THEN conjunct2, THEN conjunct2]
    by (simp add: example_state_fields example_call_def example_segment_def
        example_transaction_def format_d_1)
  have crossed: "\<not> consistent (new_State example_transaction second_segment
        (created_call example_segment (JFun 0)
           (on_describer (traceWrapping ''->'' ''C outer'') crossed_world))
        True)"
    using X crossed_state_inconsistent by simp
  have entered: "context_obj (snd (Tracer_enter example_state ?fw))
       = \<lparr>state = Some example_state, stack = [None]\<rparr>"
    using E [THEN conjunct1] by (simp add: fresh_world_fields)
  have logged: "trace (describer (tracer (snd (Tracer_enter example_state ?fw)))) = [''->T1S1C1'']"
    using E [THEN conjunct2, THEN conjunct1] by (simp add: fresh_world_fields tok)
  have left: "context_obj (snd (Tracer_exit example_state active_world))
       = \<lparr>state = None, stack = []\<rparr>"
    using L by (simp add: active_world_fields)
  from hypT hypS context_consistent_active T [THEN conjunct1] T [THEN conjunct2, THEN conjunct1]
    tok S C hypX crossed_state_inconsistent crossed entered logged left
  show ?thesis
    by (simp only: simp_thms)
qed

section \<open>Ids within one parent\<close>
















end
